theory Spec2Isabelle
  imports Complex_Main
begin

section \<open>Coordinate-exchange design of experiments: the code of doe.py\<close>

text \<open>
  The theory embeds the four functions of \<^verbatim>\<open>src/optimal_splitk/doe.py\<close>:
  \<^verbatim>\<open>x2fx\<close>, \<^verbatim>\<open>generate_coordinates\<close>, \<^verbatim>\<open>optimize\<close> and \<^verbatim>\<open>doe\<close>.

  Conventions of the embedding.
  \<^item> A two-dimensional numpy array is a list of rows, all of the same length; a
    one-dimensional array is a list. The entries of the designs that \<open>optimize\<close> and
    \<open>doe\<close> handle are idealised as real numbers: these functions copy and compare
    them. The arithmetic of \<open>x2fx\<close> is a parameter.
  \<^item> A Python exception is a value of type \<open>exn\<close>; a function that may raise returns
    \<open>exn + 'a\<close>, with \<open>Inl\<close> for the exception.
  \<^item> In-place mutation of \<^verbatim>\<open>Y\<close>, \<^verbatim>\<open>X\<close> and of the locals of a loop is explicit
    state passing; a \<^verbatim>\<open>for\<close> loop is a recursion over the list it iterates.
\<close>

subsection \<open>Exceptions\<close>

text \<open>
  The exceptions that can occur. \<^verbatim>\<open>KeyboardInterrupt\<close> and \<^verbatim>\<open>SystemExit\<close> derive
  from \<^verbatim>\<open>BaseException\<close> only; all others derive from \<^verbatim>\<open>Exception\<close>, which is
  what the handler \<^verbatim>\<open>except Exception\<close> of \<^verbatim>\<open>optimize\<close> tests.
  The handler of \<^verbatim>\<open>doe\<close> tests for \<^verbatim>\<open>np.linalg.LinAlgError\<close>.
\<close>

datatype exn =
    LinAlgError
  | AssertionError string
  | IndexError
  | ValueError
  | TypeError
  | ZeroDivisionError
  | FloatingPointError
  | KeyboardInterrupt
  | SystemExit

fun isinstance_Exception :: "exn \<Rightarrow> bool" where
  "isinstance_Exception KeyboardInterrupt = False"
| "isinstance_Exception SystemExit = False"
| "isinstance_Exception _ = True"

fun isinstance_LinAlgError :: "exn \<Rightarrow> bool" where
  "isinstance_LinAlgError LinAlgError = True"
| "isinstance_LinAlgError _ = False"

subsection \<open>Arrays\<close>

type_synonym vector = "real list"
type_synonym matrix = "real list list"

text \<open>\<^verbatim>\<open>np.zeros((n, m))\<close>, \<^verbatim>\<open>np.ones((n, m))\<close>, \<^verbatim>\<open>np.eye(n)\<close>.\<close>

definition np_zeros2 :: "nat \<Rightarrow> nat \<Rightarrow> matrix" where
  "np_zeros2 n m = replicate n (replicate m 0)"

definition np_ones2 :: "nat \<Rightarrow> nat \<Rightarrow> matrix" where
  "np_ones2 n m = replicate n (replicate m 1)"

definition np_eye :: "nat \<Rightarrow> matrix" where
  "np_eye n = map (\<lambda>i. map (\<lambda>j. if i = j then 1 else 0) [0..<n]) [0..<n]"

text \<open>\<^verbatim>\<open>A.size\<close> of a two-dimensional array: the number of its entries.\<close>

definition size2 :: "matrix \<Rightarrow> nat" where
  "size2 A = length (concat A)"

text \<open>\<^verbatim>\<open>A.shape[1]\<close>: the length of the rows.\<close>

definition shape1 :: "'a list list \<Rightarrow> nat" where
  "shape1 A = (case A of [] \<Rightarrow> 0 | r # _ \<Rightarrow> length r)"

text \<open>
  \<^verbatim>\<open>Y[..., j]\<close>: entry \<open>j\<close> of every row. An index beyond the rows is an
  \<^verbatim>\<open>IndexError\<close>, as Python reports it; the function compiled by numba does not
  check the index, and the theorems about \<open>x2fx\<close> are for models whose factors
  are columns of \<open>Y\<close>.
\<close>

definition column :: "'a list list \<Rightarrow> nat \<Rightarrow> exn + 'a list" where
  "column Y j = (if list_all (\<lambda>row. j < length row) Y
                 then Inr (map (\<lambda>row. row ! j) Y) else Inl IndexError)"

text \<open>\<^verbatim>\<open>X[..., i] = p\<close>: entry \<open>i\<close> of row \<open>k\<close> becomes \<open>p[k]\<close>.\<close>

definition set_column :: "'a list list \<Rightarrow> nat \<Rightarrow> 'a list \<Rightarrow> 'a list list" where
  "set_column X i p = map2 (\<lambda>row v. row[i := v]) X p"

subsection \<open>The model matrix: x2fx\<close>

type_synonym model_spec = "nat list list"

text \<open>
  \<open>x2fx\<close> computes with 64-bit floating-point numbers: it multiplies entries
  (\<^verbatim>\<open>p *= ...\<close>) and raises them to the exponents of the model (\<^verbatim>\<open>**\<close>), and it
  starts from \<^verbatim>\<open>np.zeros\<close> and \<^verbatim>\<open>np.ones\<close>. The type \<open>'a\<close> of the entries,
  the two constants and the two operations are the parameter \<open>ar\<close> of the
  embedding, of which nothing is assumed: no rounding is left out, and the
  operations need not be associative or exact.
\<close>

record 'a arith =
  f_zero :: 'a
  f_one :: 'a
  f_mul :: "'a \<Rightarrow> 'a \<Rightarrow> 'a"
  f_pow :: "'a \<Rightarrow> nat \<Rightarrow> 'a"

text \<open>
  The inner loop \<^verbatim>\<open>for j in range(model.shape[1])\<close> of \<^verbatim>\<open>x2fx\<close>, on the
  accumulator \<open>p\<close> (one entry per row of \<open>Y\<close>). The exponents of a model are the
  natural numbers of the data model (0 absent, 1 linear, 2 and more a power).
\<close>

fun x2fx_factors ::
  "'a arith \<Rightarrow> 'a list list \<Rightarrow> nat list \<Rightarrow> nat list \<Rightarrow> 'a list \<Rightarrow> exn + 'a list" where
  "x2fx_factors ar Y term [] p = Inr p"
| "x2fx_factors ar Y term (j # js) p =
     (if term ! j \<noteq> 0 then
        (case column Y j of
           Inl e \<Rightarrow> Inl e
         | Inr yj \<Rightarrow>
             (if term ! j = 1
              then x2fx_factors ar Y term js (map2 (f_mul ar) p yj)
              else x2fx_factors ar Y term js
                     (map2 (f_mul ar) p (map (\<lambda>y. f_pow ar y (term ! j)) yj))))
      else x2fx_factors ar Y term js p)"

text \<open>The outer loop \<^verbatim>\<open>for i, term in enumerate(model)\<close>, on the matrix \<open>X\<close>.\<close>

fun x2fx_terms ::
  "'a arith \<Rightarrow> 'a list list \<Rightarrow> model_spec \<Rightarrow> nat \<Rightarrow> model_spec \<Rightarrow> 'a list list \<Rightarrow>
     exn + 'a list list" where
  "x2fx_terms ar Y model i [] X = Inr X"
| "x2fx_terms ar Y model i (term # terms) X =
     (case x2fx_factors ar Y term [0..<shape1 model] (replicate (length Y) (f_one ar)) of
        Inl e \<Rightarrow> Inl e
      | Inr p \<Rightarrow> x2fx_terms ar Y model (Suc i) terms (set_column X i p))"

definition x2fx_with :: "'a arith \<Rightarrow> 'a list list \<Rightarrow> model_spec \<Rightarrow> exn + 'a list list" where
  "x2fx_with ar Y model =
     x2fx_terms ar Y model 0 model (replicate (length Y) (replicate (length model) (f_zero ar)))"

text \<open>
  In \<open>optimize\<close> and \<open>doe\<close> the entries of the designs are idealised as real
  numbers, and \<open>x2fx\<close> there is \<open>x2fx\<close> with the arithmetic of the reals. The
  model matrix goes to the criterion only, which is a parameter.
\<close>

definition exact_arith :: "real arith" where
  "exact_arith = \<lparr>f_zero = 0, f_one = 1, f_mul = (*), f_pow = (^)\<rparr>"

definition x2fx :: "matrix \<Rightarrow> model_spec \<Rightarrow> exn + matrix" where
  "x2fx Y model = x2fx_with exact_arith Y model"

text \<open>
  The model matrix as the specification words it: one row per run, one column per
  term, the entry being the product over the factors with a nonzero exponent of the
  run's value raised to that exponent, the value itself when the exponent is 1. The
  product is the one the arithmetic gives when it starts from 1 and multiplies by
  the factors in the order of their columns.
\<close>

definition term_value :: "'a arith \<Rightarrow> 'a list \<Rightarrow> nat list \<Rightarrow> 'a" where
  "term_value ar row term =
     foldl (f_mul ar) (f_one ar)
       (map (\<lambda>j. if term ! j = 1 then row ! j else f_pow ar (row ! j) (term ! j))
          (filter (\<lambda>j. term ! j \<noteq> 0) [0..<length term]))"

definition model_matrix :: "'a arith \<Rightarrow> 'a list list \<Rightarrow> model_spec \<Rightarrow> 'a list list" where
  "model_matrix ar Y model = map (\<lambda>row. map (term_value ar row) model) Y"

text \<open>Every factor a term uses is a column of every run.\<close>

definition factors_in_range :: "'a list list \<Rightarrow> model_spec \<Rightarrow> bool" where
  "factors_in_range Y model =
     list_all (\<lambda>term. list_all (\<lambda>j. term ! j = 0 \<or> list_all (\<lambda>row. j < length row) Y)
                        [0..<length term]) model"

text \<open>A model is a two-dimensional array: its rows have one length.\<close>

definition rectangular :: "'a list list \<Rightarrow> bool" where
  "rectangular A = list_all (\<lambda>r. length r = shape1 A) A"

subsection \<open>The coordinates of a factor: generate_coordinates\<close>

text \<open>
  The argument \<open>dflt\<close> is the source's \<^verbatim>\<open>default\<close>: an array of size 0 (the
  default argument \<^verbatim>\<open>np.array([[]])\<close>) when the caller gives no coordinates.
\<close>

definition generate_coordinates :: "int \<Rightarrow> matrix \<Rightarrow> matrix" where
  "generate_coordinates cat_lvl dflt =
     (if size2 dflt = 0 then
        (if cat_lvl \<le> 1 then [[-1], [0], [1]]
         else (let n_cat_levels = nat (cat_lvl - 1)
               in np_eye n_cat_levels @ map (map uminus) (np_ones2 1 n_cat_levels)))
      else dflt)"


subsection \<open>Indexing, slices and assignment to slices\<close>

text \<open>Sequencing of computations that may raise.\<close>

definition bind :: "exn + 'a \<Rightarrow> ('a \<Rightarrow> exn + 'b) \<Rightarrow> exn + 'b" where
  "bind r f = (case r of Inl e \<Rightarrow> Inl e | Inr v \<Rightarrow> f v)"

text \<open>
  \<^verbatim>\<open>xs[i]\<close> with an integer: a negative index counts from the end, an index out
  of range raises \<^verbatim>\<open>IndexError\<close>.
\<close>

definition np_index :: "'a list \<Rightarrow> int \<Rightarrow> exn + 'a" where
  "np_index xs i =
     (let n = int (length xs); j = (if i < 0 then i + n else i)
      in if 0 \<le> j \<and> j < n then Inr (xs ! nat j) else Inl IndexError)"

text \<open>\<^verbatim>\<open>xs[a:b]\<close> for \<open>0 \<le> a\<close> and \<open>0 \<le> b\<close>: a slice is clipped to the array.\<close>

definition np_slice :: "nat \<Rightarrow> nat \<Rightarrow> 'a list \<Rightarrow> 'a list" where
  "np_slice a b xs = take (b - a) (drop a xs)"

text \<open>
  Broadcasting a one-dimensional value to a row of \<open>n\<close> entries: it has \<open>n\<close>
  entries, or one entry that is repeated; anything else is a \<^verbatim>\<open>ValueError\<close>.
\<close>

definition broadcast_to :: "nat \<Rightarrow> vector \<Rightarrow> exn + vector" where
  "broadcast_to n v =
     (if length v = n then Inr v
      else if length v = 1 then Inr (replicate n (hd v))
      else Inl ValueError)"

text \<open>
  \<^verbatim>\<open>Y[r0:r1, c0:c1] = v\<close> for a one-dimensional \<open>v\<close>: every row of the slice gets
  \<open>v\<close>, broadcast to the columns of the (clipped) slice. An array without rows is
  taken to have no columns.
\<close>

definition set_block :: "matrix \<Rightarrow> nat \<times> nat \<Rightarrow> nat \<times> nat \<Rightarrow> vector \<Rightarrow> exn + matrix" where
  "set_block Y runs cols v =
     bind (broadcast_to (length (np_slice (fst cols) (snd cols) (replicate (shape1 Y) (0::real)))) v)
       (\<lambda>v'. Inr (map (\<lambda>k. if fst runs \<le> k \<and> k < snd runs
                           then take (fst cols) (Y ! k) @ v' @ drop (snd cols) (Y ! k)
                           else Y ! k) [0..<length Y]))"

text \<open>
  \<^verbatim>\<open>X[r0:r1] = Xi\<close>: the rows of the slice are replaced by the rows of \<open>Xi\<close>. In
  \<open>optimize\<close> the two have the same rows, \<open>X\<close> having the rows of \<open>Y\<close>; any other
  shape is reported as numpy's \<^verbatim>\<open>ValueError\<close>.
\<close>

definition set_rows :: "matrix \<Rightarrow> nat \<times> nat \<Rightarrow> matrix \<Rightarrow> exn + matrix" where
  "set_rows X runs Xi =
     (if length Xi = length (np_slice (fst runs) (snd runs) X)
      then Inr (take (fst runs) X @ Xi @ drop (snd runs) X)
      else Inl ValueError)"

text \<open>
  \<^verbatim>\<open>np.all(a == b)\<close> on one-dimensional arrays: elementwise when the lengths
  agree, broadcast when one of them has a single entry. (With other lengths numpy
  cannot compare; in \<open>optimize\<close> the assignment before the comparison has raised
  in that case.)
\<close>

definition np_all_eq :: "vector \<Rightarrow> vector \<Rightarrow> exn + bool" where
  "np_all_eq a b =
     (if length a = length b then Inr (a = b)
      else if length a = 1 then Inr (list_all (\<lambda>x. hd a = x) b)
      else if length b = 1 then Inr (list_all (\<lambda>x. x = hd b) a)
      else Inl ValueError)"

text \<open>\<^verbatim>\<open>np.cumprod\<close> and \<^verbatim>\<open>np.cumsum\<close> of a one-dimensional array.\<close>

fun cumprod_from :: "nat \<Rightarrow> nat list \<Rightarrow> nat list" where
  "cumprod_from a [] = []"
| "cumprod_from a (x # xs) = (a * x) # cumprod_from (a * x) xs"

definition np_cumprod :: "nat list \<Rightarrow> nat list" where
  "np_cumprod xs = cumprod_from 1 xs"

fun cumsum_from :: "nat \<Rightarrow> nat list \<Rightarrow> nat list" where
  "cumsum_from a [] = []"
| "cumsum_from a (x # xs) = (a + x) # cumsum_from (a + x) xs"

definition np_cumsum :: "nat list \<Rightarrow> nat list" where
  "np_cumsum xs = cumsum_from 0 xs"

subsection \<open>The optimality criterion\<close>

text \<open>
  A metric is a Python float: a number, an infinity or not-a-number. \<open>doe\<close>
  compares metrics with \<^verbatim>\<open>>\<close>, which is false whenever an operand is
  not-a-number.
\<close>

datatype pyfloat = NaN | NegInf | Finite real | PosInf

fun float_gt :: "pyfloat \<Rightarrow> pyfloat \<Rightarrow> bool" where
  "float_gt NaN _ = False"
| "float_gt _ NaN = False"
| "float_gt NegInf _ = False"
| "float_gt (Finite a) NegInf = True"
| "float_gt (Finite a) (Finite b) = (a > b)"
| "float_gt (Finite a) PosInf = False"
| "float_gt PosInf PosInf = False"
| "float_gt PosInf _ = True"

text \<open>
  A factor is the pair of its split-plot level and its number of categorical levels.
\<close>

type_synonym factor = "int \<times> int"

text \<open>
  The state of a criterion is an object with (at least) the attributes \<^verbatim>\<open>V\<close>
  and \<^verbatim>\<open>Minv\<close>, which \<open>optimize\<close> reads and writes; a criterion may extend it.
\<close>

record cstate =
  V :: matrix
  Minv :: matrix

text \<open>
  The criterion \<^verbatim>\<open>optim\<close> is an object with four methods, each of which may
  raise. \<open>'m\<close> is the type of the model as the caller writes it, \<open>'p\<close> the type of
  the prestate and \<open>'z\<close> what the criterion adds to the state.
\<close>

record ('m, 'p, 'z) optim =
  preinit :: "nat list \<Rightarrow> 'm \<times> model_spec \<Rightarrow> factor list \<Rightarrow> vector \<Rightarrow> exn + 'p"
  init :: "'p \<Rightarrow> matrix \<Rightarrow> matrix \<Rightarrow> exn + 'z cstate_scheme"
  update :: "'z cstate_scheme \<Rightarrow> matrix \<Rightarrow> matrix \<Rightarrow> int \<Rightarrow> nat \<Rightarrow>
               exn + bool \<times> 'z cstate_scheme"
  metric :: "'z cstate_scheme \<Rightarrow> matrix \<Rightarrow> matrix \<Rightarrow> exn + pyfloat"

subsection \<open>The coordinate exchange: optimize\<close>

text \<open>
  The variables of \<open>optimize\<close> that its loops change: the design \<open>Y\<close>, the model
  matrix \<open>X\<close>, the state of the criterion and the flag \<open>updated\<close>.
\<close>

record 'z sweep_state =
  cur_Y :: matrix
  cur_X :: matrix
  cur_state :: "'z cstate_scheme"
  updated :: bool

text \<open>A \<^verbatim>\<open>for\<close> loop over a list; an exception in the body ends it.\<close>

fun for_each :: "('a \<Rightarrow> 'b \<Rightarrow> exn + 'b) \<Rightarrow> 'a list \<Rightarrow> 'b \<Rightarrow> exn + 'b" where
  "for_each body [] s = Inr s"
| "for_each body (x # xs) s = bind (body x s) (for_each body xs)"

text \<open>
  The \<^verbatim>\<open>try\<close> statement around \<^verbatim>\<open>optim.update\<close>: whatever derives from
  \<^verbatim>\<open>Exception\<close> is caught and the candidate is not accepted, with the state the
  variable \<^verbatim>\<open>state\<close> had; any other exception goes on.
\<close>

definition try_update ::
  "('m, 'p, 'z) optim \<Rightarrow> 'z cstate_scheme \<Rightarrow> matrix \<Rightarrow> matrix \<Rightarrow> int \<Rightarrow> nat \<Rightarrow>
     exn + bool \<times> 'z cstate_scheme" where
  "try_update optim st X Xi_star level grp =
     (case update optim st X Xi_star level grp of
        Inl e \<Rightarrow> if isinstance_Exception e then Inr (False, st) else Inl e
      | Inr (accept, st') \<Rightarrow> Inr (accept, st'))"

text \<open>
  The body of \<^verbatim>\<open>for new_coord in possible_coords\<close>, on the pair of
  \<^verbatim>\<open>best_coord\<close> and the variables of the sweep.
\<close>

definition try_coordinate ::
  "('m, 'p, 'z) optim \<Rightarrow> model_spec \<Rightarrow> int \<Rightarrow> nat \<Rightarrow> nat \<times> nat \<Rightarrow> nat \<times> nat \<Rightarrow> vector \<Rightarrow>
     vector \<Rightarrow> vector \<times> 'z sweep_state \<Rightarrow> exn + vector \<times> 'z sweep_state" where
  "try_coordinate optim model level grp runs cols init_coord new_coord bs =
     (case bs of (best_coord, s) \<Rightarrow>
        bind (set_block (cur_Y s) runs cols new_coord) (\<lambda>Y'.
        bind (np_all_eq new_coord init_coord) (\<lambda>same.
          if \<not> same then
            bind (x2fx (np_slice (fst runs) (snd runs) Y') model) (\<lambda>Xi_star.
            bind (try_update optim (cur_state s) (cur_X s) Xi_star level grp) (\<lambda>(accept, st').
              if accept then
                bind (set_rows (cur_X s) runs Xi_star) (\<lambda>X'.
                  Inr (new_coord,
                       \<lparr>cur_Y = Y', cur_X = X', cur_state = st', updated = True\<rparr>))
              else Inr (best_coord, s\<lparr>cur_Y := Y', cur_state := st'\<rparr>)))
          else Inr (best_coord, s\<lparr>cur_Y := Y'\<rparr>))))"

text \<open>The body of \<^verbatim>\<open>for grp in range(alphas[level])\<close>: one block of runs.\<close>

definition scan_block ::
  "('m, 'p, 'z) optim \<Rightarrow> model_spec \<Rightarrow> matrix list \<Rightarrow> nat \<Rightarrow> int \<Rightarrow> nat \<Rightarrow> nat \<Rightarrow>
     nat \<Rightarrow> 'z sweep_state \<Rightarrow> exn + 'z sweep_state" where
  "scan_block optim model possible_coords_list i level jmp col grp s =
     bind (np_index possible_coords_list (int i)) (\<lambda>possible_coords.
       let cols = (col, col + shape1 possible_coords);
           runs = (grp * jmp, (grp + 1) * jmp)
       in bind (np_index (cur_Y s) (int (fst runs))) (\<lambda>row.
            let init_coord = np_slice (fst cols) (snd cols) row
            in bind (for_each (try_coordinate optim model level grp runs cols init_coord)
                       possible_coords (init_coord, s)) (\<lambda>(best_coord, s').
                 bind (set_block (cur_Y s') runs cols best_coord) (\<lambda>Y'.
                   Inr (s'\<lparr>cur_Y := Y'\<rparr>)))))"

text \<open>The body of \<^verbatim>\<open>for i, factor in enumerate(factors)\<close>.\<close>

definition scan_factor ::
  "('m, 'p, 'z) optim \<Rightarrow> model_spec \<Rightarrow> matrix list \<Rightarrow> nat list \<Rightarrow> nat list \<Rightarrow> nat list \<Rightarrow>
     nat \<times> factor \<Rightarrow> 'z sweep_state \<Rightarrow> exn + 'z sweep_state" where
  "scan_factor optim model possible_coords_list alphas betas col_start ifactor s =
     (case ifactor of (i, (level, cat_lvl)) \<Rightarrow>
        bind (np_index betas level) (\<lambda>jmp.
        bind (np_index col_start (int i)) (\<lambda>col.
        bind (np_index alphas level) (\<lambda>n_grp.
          for_each (scan_block optim model possible_coords_list i level jmp col)
            [0..<n_grp] s))))"

text \<open>One iteration of \<^verbatim>\<open>for it in range(max_it)\<close> up to the test of \<open>updated\<close>.\<close>

definition sweep ::
  "('m, 'p, 'z) optim \<Rightarrow> model_spec \<Rightarrow> factor list \<Rightarrow> matrix list \<Rightarrow> nat list \<Rightarrow> nat list \<Rightarrow>
     nat list \<Rightarrow> 'z sweep_state \<Rightarrow> exn + 'z sweep_state" where
  "sweep optim model factors possible_coords_list alphas betas col_start s =
     for_each (scan_factor optim model possible_coords_list alphas betas col_start)
       (enumerate 0 factors) (s\<lparr>updated := False\<rparr>)"

text \<open>
  \<^verbatim>\<open>state.Minv[:] = np.linalg.inv(X.T @ np.linalg.solve(state.V, X))\<close>. The
  linear algebra of numpy is the parameter \<open>inv_solve\<close>, which maps \<open>V\<close> and \<open>X\<close>
  to that inverse or raises (\<^verbatim>\<open>LinAlgError\<close> on a singular matrix).
\<close>

definition resync ::
  "(matrix \<Rightarrow> matrix \<Rightarrow> exn + matrix) \<Rightarrow> 'z sweep_state \<Rightarrow> exn + 'z sweep_state" where
  "resync inv_solve s =
     bind (inv_solve (V (cur_state s)) (cur_X s)) (\<lambda>M.
       Inr (s\<lparr>cur_state := (cur_state s)\<lparr>Minv := M\<rparr>\<rparr>))"

text \<open>
  The loop \<^verbatim>\<open>for it in range(max_it)\<close>; the first argument is the number of
  iterations left, the second the number of sweeps made so far, which the result
  reports (it is not a variable of the source).
\<close>

fun iterate ::
  "nat \<Rightarrow> nat \<Rightarrow> ('z sweep_state \<Rightarrow> exn + 'z sweep_state) \<Rightarrow>
     ('z sweep_state \<Rightarrow> exn + 'z sweep_state) \<Rightarrow> 'z sweep_state \<Rightarrow>
     exn + nat \<times> 'z sweep_state" where
  "iterate 0 n do_sweep do_resync s = Inr (n, s)"
| "iterate (Suc k) n do_sweep do_resync s =
     bind (do_sweep s) (\<lambda>s'.
       if \<not> updated s' then Inr (Suc n, s')
       else bind (do_resync s') (iterate k (Suc n) do_sweep do_resync))"

text \<open>
  The number of columns of a factor,
  \<^verbatim>\<open>np.where(factors[:, 1] > 1, factors[:, 1] - 1, 1)\<close>, and the start column of
  every factor when \<^verbatim>\<open>col_start\<close> is \<^verbatim>\<open>None\<close>.
\<close>

definition width :: "factor \<Rightarrow> nat" where
  "width f = (case f of (level, cat_lvl) \<Rightarrow> if cat_lvl > 1 then nat (cat_lvl - 1) else 1)"

definition default_col_start :: "factor list \<Rightarrow> nat list" where
  "default_col_start factors = 0 # np_cumsum (map width factors)"

text \<open>The list \<^verbatim>\<open>_possible_coords\<close>.\<close>

definition all_possible_coords :: "factor list \<Rightarrow> matrix list option \<Rightarrow> matrix list" where
  "all_possible_coords factors default_coords =
     (case default_coords of
        Some dcoords \<Rightarrow>
          map (\<lambda>(dcoord, (level, cat_lvl)). generate_coordinates cat_lvl dcoord)
            (zip dcoords factors)
      | None \<Rightarrow> map (\<lambda>(level, cat_lvl). generate_coordinates cat_lvl [[]]) factors)"

text \<open>
  \<open>optimize\<close>, with the number of sweeps and the final variables as its result;
  the result of the source is the pair of \<open>Y\<close> and the metric below.
\<close>

definition optimize_run ::
  "(matrix \<Rightarrow> matrix \<Rightarrow> exn + matrix) \<Rightarrow> matrix \<Rightarrow> model_spec \<Rightarrow> nat list \<Rightarrow> factor list \<Rightarrow>
     ('m, 'p, 'z) optim \<Rightarrow> 'p \<Rightarrow> nat \<Rightarrow> nat list option \<Rightarrow> matrix list option \<Rightarrow>
     exn + nat \<times> 'z sweep_state" where
  "optimize_run inv_solve Y model plot_sizes factors optim prestate max_it col_start
       default_coords =
     bind (x2fx Y model) (\<lambda>X.
     bind (init optim prestate Y X) (\<lambda>state.
       let alphas = rev (np_cumprod (rev plot_sizes));
           betas = np_cumprod (1 # plot_sizes);
           col_start = (case col_start of None \<Rightarrow> default_col_start factors | Some cs \<Rightarrow> cs);
           possible_coords_list = all_possible_coords factors default_coords
       in iterate max_it 0
            (sweep optim model factors possible_coords_list alphas betas col_start)
            (resync inv_solve)
            \<lparr>cur_Y = Y, cur_X = X, cur_state = state, updated = False\<rparr>))"

definition optimize ::
  "(matrix \<Rightarrow> matrix \<Rightarrow> exn + matrix) \<Rightarrow> matrix \<Rightarrow> model_spec \<Rightarrow> nat list \<Rightarrow> factor list \<Rightarrow>
     ('m, 'p, 'z) optim \<Rightarrow> 'p \<Rightarrow> nat \<Rightarrow> nat list option \<Rightarrow> matrix list option \<Rightarrow>
     exn + matrix \<times> pyfloat" where
  "optimize inv_solve Y model plot_sizes factors optim prestate max_it col_start
       default_coords =
     bind (optimize_run inv_solve Y model plot_sizes factors optim prestate max_it col_start
             default_coords) (\<lambda>(n, s).
     bind (metric optim (cur_state s) (cur_Y s) (cur_X s)) (\<lambda>m.
       Inr (cur_Y s, m)))"

subsection \<open>The restarts: doe\<close>

text \<open>
  The functions \<open>doe\<close> imports from the other modules of the package
  (\<^verbatim>\<open>encode\<close>, \<^verbatim>\<open>init\<close>) are parameters. \<open>'g\<close> is the state of the world
  outside \<open>doe\<close>: the random generator and whatever the callback acts on.
  \<^verbatim>\<open>initialize_single\<close> draws a random design: it takes and returns that state.
  It is given the array \<^verbatim>\<open>Y\<close> of \<open>doe\<close> and may fill it in place, so it returns
  both its result and what it leaves in \<^verbatim>\<open>Y\<close>.
\<close>

record ('m, 'g) collaborators =
  encode_model :: "'m \<Rightarrow> factor list \<Rightarrow> model_spec"
  encode_design :: "matrix \<Rightarrow> factor list \<Rightarrow> matrix"
  decode_design :: "matrix \<Rightarrow> factor list \<Rightarrow> matrix"
  initialize_single :: "'g \<Rightarrow> nat list \<Rightarrow> factor list \<Rightarrow> matrix \<Rightarrow> matrix list option \<Rightarrow>
                          matrix \<times> matrix \<times> 'g"
  inv_solve :: "matrix \<Rightarrow> matrix \<Rightarrow> exn + matrix"

text \<open>
  The callback \<^verbatim>\<open>it_callback\<close> is called with the count of the completed
  restarts. It acts on the world outside \<open>doe\<close>, and it returns or raises: its
  result is the exception, if it raises one, and the world it leaves.
\<close>

type_synonym 'g callback = "nat \<Rightarrow> 'g \<Rightarrow> exn option \<times> 'g"

text \<open>
  \<^verbatim>\<open>np.concatenate(arrays, axis)\<close> as far as \<open>doe\<close> calls it with positional
  arguments. The first argument is the sequence of the arrays to join, the second
  the axis, an integer. An array given as the axis is a \<^verbatim>\<open>TypeError\<close>; a
  one-dimensional array given as the sequence is a sequence of zero-dimensional
  arrays, which cannot be joined (\<^verbatim>\<open>ValueError\<close>), as an empty sequence cannot.
  A one-dimensional array has the axis 0 only.
\<close>

datatype pyarg = PyInt int | PyArray vector | PyTuple "vector list"

definition np_concatenate :: "pyarg \<Rightarrow> pyarg \<Rightarrow> exn + vector" where
  "np_concatenate arrays axis =
     (case axis of
        PyInt a \<Rightarrow>
          (case arrays of
             PyTuple vs \<Rightarrow> if vs \<noteq> [] \<and> (a = 0 \<or> a = -1) then Inr (concat vs)
                           else Inl ValueError
           | PyArray v \<Rightarrow> Inl ValueError
           | PyInt _ \<Rightarrow> Inl TypeError)
      | PyArray _ \<Rightarrow> Inl TypeError
      | PyTuple _ \<Rightarrow> Inl TypeError)"

text \<open>
  The statement \<^verbatim>\<open>if ratios is None: ... elif ...: ... else: assert ...\<close>
  that initialises the ratios. In the second branch the source calls
  \<^verbatim>\<open>np.concatenate(np.array([1]), ratios)\<close>: the array \<^verbatim>\<open>ratios\<close> is the second
  positional argument, the axis.
\<close>

definition initialize_ratios :: "nat list \<Rightarrow> vector option \<Rightarrow> exn + vector" where
  "initialize_ratios plot_sizes ratios =
     (case ratios of
        None \<Rightarrow> Inr (replicate (length plot_sizes) 1)
      | Some r \<Rightarrow>
          if length r + 1 = length plot_sizes then np_concatenate (PyArray [1]) (PyArray r)
          else if length r \<noteq> length plot_sizes
            then Inl (AssertionError ''Ratio sizes do not match plot sizes'')
          else bind (np_index r 0) (\<lambda>r0.
            if r0 \<noteq> 1 then Inl (AssertionError ''First element of ratios should be 1'')
            else Inr r))"

text \<open>
  The variables of the loop of \<open>doe\<close>. \<open>tries_done\<close> is the source's \<^verbatim>\<open>i\<close> and
  \<open>template_Y\<close> the content of its array \<^verbatim>\<open>Y\<close>. \<open>best_Y\<close> is \<open>None\<close> while the
  variable \<^verbatim>\<open>best_Y\<close> is still bound to the array \<^verbatim>\<open>Y\<close>, and \<open>Some\<close> of a copy
  afterwards. \<open>rng\<close> is the world outside \<open>doe\<close>, as the initializer and the
  callback have left it. \<open>history\<close> is not a variable of the source: it holds the
  design and the metric that \<open>optimize\<close> returned in every restart that completed,
  for the theorems to speak about.
\<close>

record 'g doe_state =
  tries_done :: nat
  metrics :: "pyfloat list"
  best_metric :: pyfloat
  best_Y :: "matrix option"
  template_Y :: matrix
  rng :: 'g
  history :: "(matrix \<times> pyfloat) list"

text \<open>
  What the \<^verbatim>\<open>try\<close> block of the loop does with the result of \<open>optimize\<close>, up
  to the call of \<^verbatim>\<open>it_callback\<close>: it stores the metric, updates the best design
  when the metric is greater than the best so far, and counts the restart.
\<close>

definition record_restart :: "'g doe_state \<Rightarrow> matrix \<Rightarrow> pyfloat \<Rightarrow> 'g doe_state" where
  "record_restart s Yo metric_value =
     (let i = tries_done s;
          s1 = s\<lparr>metrics := (metrics s)[i := metric_value],
                 history := history s @ [(Yo, metric_value)]\<rparr>;
          s2 = (if float_gt metric_value (best_metric s1)
                then s1\<lparr>best_metric := metric_value, best_Y := Some Yo\<rparr>
                else s1)
      in s2\<lparr>tries_done := i + 1\<rparr>)"

text \<open>
  One iteration of \<^verbatim>\<open>while i < n_tries\<close>. The \<^verbatim>\<open>try\<close> statement encloses the
  call of \<open>optimize\<close>, the bookkeeping and the call \<^verbatim>\<open>it_callback(i)\<close>; its
  handler catches \<^verbatim>\<open>np.linalg.LinAlgError\<close> and does nothing, also when it is the
  callback that raised it.
\<close>

definition doe_attempt ::
  "('m, 'g) collaborators \<Rightarrow> model_spec \<Rightarrow> nat list \<Rightarrow> factor list \<Rightarrow> nat \<Rightarrow>
     'g callback \<Rightarrow> ('m, 'p, 'z) optim \<Rightarrow> 'p \<Rightarrow> matrix list option \<Rightarrow> 'g doe_state \<Rightarrow>
     exn + 'g doe_state" where
  "doe_attempt imp model_enc plot_sizes factors max_it it_callback optim prestate
       default_coords s =
     (case initialize_single imp (rng s) plot_sizes factors (template_Y s) default_coords of
        (Yo, Y', g') \<Rightarrow>
          let Yoenc = encode_design imp Yo factors;
              s0 = s\<lparr>template_Y := Y', rng := g'\<rparr>
          in (case optimize (inv_solve imp) Yoenc model_enc plot_sizes factors optim prestate
                     max_it None default_coords of
                Inl e \<Rightarrow> if isinstance_LinAlgError e then Inr s0 else Inl e
              | Inr (Yo', metric_value) \<Rightarrow>
                  let s1 = record_restart s0 Yo' metric_value
                  in (case it_callback (tries_done s1) (rng s1) of
                        (Some e, g'') \<Rightarrow>
                          if isinstance_LinAlgError e then Inr (s1\<lparr>rng := g''\<rparr>) else Inl e
                      | (None, g'') \<Rightarrow> Inr (s1\<lparr>rng := g''\<rparr>))))"

text \<open>
  The loop \<^verbatim>\<open>while i < n_tries\<close>. Nothing bounds the number of its iterations, so
  the first argument is the number of iterations it is allowed; \<open>None\<close> says that
  the loop has not ended within them.
\<close>

fun doe_loop ::
  "nat \<Rightarrow> ('g doe_state \<Rightarrow> exn + 'g doe_state) \<Rightarrow> nat \<Rightarrow> 'g doe_state \<Rightarrow>
     (exn + 'g doe_state) option" where
  "doe_loop 0 attempt n_tries s =
     (if tries_done s < n_tries then None else Some (Inr s))"
| "doe_loop (Suc fuel) attempt n_tries s =
     (if tries_done s < n_tries then
        (case attempt s of
           Inl e \<Rightarrow> Some (Inl e)
         | Inr s' \<Rightarrow> doe_loop fuel attempt n_tries s')
      else Some (Inr s))"

text \<open>
  \<open>doe\<close> up to the end of its loop, with the final variables as the result, and
  \<open>doe\<close> itself. The progress bar is left out.
\<close>

definition doe_run ::
  "nat \<Rightarrow> ('m, 'g) collaborators \<Rightarrow> 'm \<Rightarrow> nat list \<Rightarrow> factor list \<Rightarrow> nat \<Rightarrow> nat \<Rightarrow>
     'g callback option \<Rightarrow> ('m, 'p, 'z) optim \<Rightarrow> matrix list option \<Rightarrow> vector option \<Rightarrow>
     'g \<Rightarrow> (exn + 'g doe_state) option" where
  "doe_run fuel imp model plot_sizes factors n_tries max_it it_callback optim default_coords
       ratios g =
     (let model_enc = encode_model imp model factors;
          Y = np_zeros2 (prod_list plot_sizes) (length factors);
          it_callback = (case it_callback of None \<Rightarrow> (\<lambda>x w. (None, w)) | Some f \<Rightarrow> f);
          s = \<lparr>tries_done = 0, metrics = replicate n_tries (Finite 0), best_metric = NegInf,
               best_Y = None, template_Y = Y, rng = g, history = []\<rparr>
      in case initialize_ratios plot_sizes ratios of
           Inl e \<Rightarrow> Some (Inl e)
         | Inr ratios' \<Rightarrow>
             (case preinit optim plot_sizes (model, model_enc) factors ratios' of
                Inl e \<Rightarrow> Some (Inl e)
              | Inr prestate \<Rightarrow>
                  doe_loop fuel
                    (doe_attempt imp model_enc plot_sizes factors max_it it_callback optim
                       prestate default_coords)
                    n_tries s))"

definition doe ::
  "nat \<Rightarrow> ('m, 'g) collaborators \<Rightarrow> 'm \<Rightarrow> nat list \<Rightarrow> factor list \<Rightarrow> nat \<Rightarrow> nat \<Rightarrow>
     'g callback option \<Rightarrow> ('m, 'p, 'z) optim \<Rightarrow> matrix list option \<Rightarrow> vector option \<Rightarrow>
     'g \<Rightarrow> (exn + matrix \<times> pyfloat list) option" where
  "doe fuel imp model plot_sizes factors n_tries max_it it_callback optim default_coords
       ratios g =
     (case doe_run fuel imp model plot_sizes factors n_tries max_it it_callback optim
             default_coords ratios g of
        None \<Rightarrow> None
      | Some (Inl e) \<Rightarrow> Some (Inl e)
      | Some (Inr s) \<Rightarrow>
          Some (Inr (decode_design imp
                       (case best_Y s of None \<Rightarrow> template_Y s | Some B \<Rightarrow> B) factors,
                     metrics s)))"

subsection \<open>Criteria and collaborators for the examples\<close>

text \<open>
  A small criterion on models over one level: the score of a design is the sum of
  the squares of its model matrix, and a candidate is accepted when it raises the
  score of its run.
\<close>

definition sumsq :: "matrix \<Rightarrow> real" where
  "sumsq A = sum_list (map (\<lambda>r. sum_list (map (\<lambda>x. x * x) r)) A)"

definition squares_criterion :: "(model_spec, unit, unit) optim" where
  "squares_criterion =
     \<lparr>preinit = (\<lambda>plot_sizes model factors ratios. Inr ()),
      init = (\<lambda>prestate Y X. Inr \<lparr>V = [], Minv = []\<rparr>),
      update = (\<lambda>st X Xi level grp. Inr (sumsq Xi > sumsq [X ! grp], st)),
      metric = (\<lambda>st Y X. Inr (Finite (sumsq X)))\<rparr>"

text \<open>The collaborators: no encoding, and an initializer that fills \<^verbatim>\<open>Y\<close> with
  the next design of a list and returns it.\<close>

definition list_collaborators :: "(model_spec, matrix list) collaborators" where
  "list_collaborators =
     \<lparr>encode_model = (\<lambda>model factors. model),
      encode_design = (\<lambda>Y factors. Y),
      decode_design = (\<lambda>Y factors. Y),
      initialize_single = (\<lambda>g plot_sizes factors Y coords.
         (case g of [] \<Rightarrow> (Y, Y, []) | D # g' \<Rightarrow> (D, D, g'))),
      inv_solve = (\<lambda>Vm Xm. Inr [])\<rparr>"

text \<open>
  The same collaborators in a world that also holds a log, and the callback that
  appends its argument to the log.
\<close>

definition logging_collaborators :: "(model_spec, matrix list \<times> nat list) collaborators" where
  "logging_collaborators =
     \<lparr>encode_model = (\<lambda>model factors. model),
      encode_design = (\<lambda>Y factors. Y),
      decode_design = (\<lambda>Y factors. Y),
      initialize_single = (\<lambda>g plot_sizes factors Y coords.
         (case fst g of [] \<Rightarrow> (Y, Y, g) | D # ds \<Rightarrow> (D, D, (ds, snd g)))),
      inv_solve = (\<lambda>Vm Xm. Inr [])\<rparr>"

definition logging_callback :: "(matrix list \<times> nat list) callback" where
  "logging_callback i g = (None, (fst g, snd g @ [i]))"

text \<open>The same criterion with an \<open>update\<close> that raises \<open>e\<close> whatever it is given.\<close>

definition failing_criterion :: "exn \<Rightarrow> (model_spec, unit, unit) optim" where
  "failing_criterion e = squares_criterion\<lparr>update := (\<lambda>st X Xi level grp. Inl e)\<rparr>"

text \<open>
  For a criterion \<open>optim\<close>, the criterion whose \<open>update\<close> itself turns every failure
  of \<open>optim\<close>'s that derives from \<^verbatim>\<open>Exception\<close> into the answer ``not accepted,
  state as it was''.
\<close>

definition catching :: "('m, 'p, 'z) optim \<Rightarrow> ('m, 'p, 'z) optim" where
  "catching optim =
     optim\<lparr>update := (\<lambda>st X Xi level grp.
        case update optim st X Xi level grp of
          Inl e \<Rightarrow> if isinstance_Exception e then Inr (False, st) else Inl e
        | Inr r \<Rightarrow> Inr r)\<rparr>"

text \<open>
  The criterion that cannot start from a design whose model matrix is zero (its
  \<open>init\<close> raises \<^verbatim>\<open>LinAlgError\<close>), and the criterion whose metric is minus
  infinity for every design (as the logarithm of a zero determinant is).
\<close>

definition singular_criterion :: "(model_spec, unit, unit) optim" where
  "singular_criterion =
     squares_criterion\<lparr>init := (\<lambda>prestate Y X.
        if sumsq X = 0 then Inl LinAlgError else Inr \<lparr>V = [], Minv = []\<rparr>)\<rparr>"

definition neginf_criterion :: "(model_spec, unit, unit) optim" where
  "neginf_criterion = squares_criterion\<lparr>metric := (\<lambda>st Y X. Inr NegInf)\<rparr>"

text \<open>
  An arithmetic that overflows, for the examples of \<open>x2fx\<close>: a product beyond 10 in
  absolute value is an infinity, as a product beyond the largest float is, and an
  infinity times zero is not a number. A power is a repeated product.
\<close>

definition overflow :: "real \<Rightarrow> pyfloat" where
  "overflow x = (if x > 10 then PosInf else if x < -10 then NegInf else Finite x)"

fun overflow_mul :: "pyfloat \<Rightarrow> pyfloat \<Rightarrow> pyfloat" where
  "overflow_mul (Finite a) (Finite b) = overflow (a * b)"
| "overflow_mul NaN _ = NaN"
| "overflow_mul _ NaN = NaN"
| "overflow_mul (Finite a) PosInf = (if a = 0 then NaN else if a > 0 then PosInf else NegInf)"
| "overflow_mul (Finite a) NegInf = (if a = 0 then NaN else if a > 0 then NegInf else PosInf)"
| "overflow_mul PosInf (Finite b) = (if b = 0 then NaN else if b > 0 then PosInf else NegInf)"
| "overflow_mul NegInf (Finite b) = (if b = 0 then NaN else if b > 0 then NegInf else PosInf)"
| "overflow_mul PosInf PosInf = PosInf"
| "overflow_mul PosInf NegInf = NegInf"
| "overflow_mul NegInf PosInf = NegInf"
| "overflow_mul NegInf NegInf = PosInf"

definition overflow_arith :: "pyfloat arith" where
  "overflow_arith =
     \<lparr>f_zero = Finite 0, f_one = Finite 1, f_mul = overflow_mul,
      f_pow = (\<lambda>a n. foldl overflow_mul (Finite 1) (replicate n a))\<rparr>"

subsection \<open>Invariants of the loop of doe\<close>

text \<open>
  The bookkeeping: \<open>tries_done\<close> restarts have completed, and their metrics are
  the first entries of \<open>metrics\<close>.
\<close>

definition book_inv :: "nat \<Rightarrow> 'g doe_state \<Rightarrow> bool" where
  "book_inv n_tries s \<longleftrightarrow>
     tries_done s \<le> n_tries \<and> length (metrics s) = n_tries \<and>
     length (history s) = tries_done s \<and>
     take (tries_done s) (metrics s) = map snd (history s)"

text \<open>
  The best design: either no completed restart had a metric greater than minus
  infinity and \<^verbatim>\<open>best_Y\<close> is still the array \<^verbatim>\<open>Y\<close>, or \<^verbatim>\<open>best_Y\<close> is the
  design of the first completed restart whose metric no other exceeds.
\<close>

definition best_inv :: "'g doe_state \<Rightarrow> bool" where
  "best_inv s \<longleftrightarrow>
     (case best_Y s of
        None \<Rightarrow> best_metric s = NegInf \<and>
                 list_all (\<lambda>h. \<not> float_gt (snd h) NegInf) (history s)
      | Some B \<Rightarrow>
          (\<exists>k<length (history s). history s ! k = (B, best_metric s) \<and>
             float_gt (best_metric s) NegInf \<and>
             (\<forall>j<length (history s). \<not> float_gt (snd (history s ! j)) (best_metric s)) \<and>
             (\<forall>j<k. snd (history s ! j) = NaN \<or>
                    float_gt (best_metric s) (snd (history s ! j)))))"

subsection \<open>Valid designs\<close>




subsection \<open>Designs with one coordinate per block\<close>

text \<open>
  \<open>optimize\<close> reads the coordinate of a block, \<^verbatim>\<open>Y[runs.start, cols]\<close>, in the
  first run of the block. The runs \<^verbatim>\<open>Y[runs]\<close> of a block hold one coordinate in
  the columns \<open>cols\<close> when every run of the block has there what the first has
  (the slice \<open>runs\<close> ends with the array).
\<close>

definition block_constant :: "matrix \<Rightarrow> nat \<times> nat \<Rightarrow> nat \<times> nat \<Rightarrow> bool" where
  "block_constant Y runs cols \<longleftrightarrow>
     fst runs < length Y \<and>
     list_all (\<lambda>k. np_slice (fst cols) (snd cols) (Y ! k) =
                    np_slice (fst cols) (snd cols) (Y ! fst runs))
       [fst runs..<min (snd runs) (length Y)]"

text \<open>
  A design in which, for every factor, the level is an index of \<^verbatim>\<open>betas\<close> and
  \<^verbatim>\<open>alphas\<close>, the factor has start column and coordinates, the columns of the
  coordinates are columns of every run, and each of the \<^verbatim>\<open>alphas[level]\<close> blocks
  of \<^verbatim>\<open>betas[level]\<close> runs holds one coordinate.
\<close>

definition split_plot_design ::
  "matrix list \<Rightarrow> nat list \<Rightarrow> nat list \<Rightarrow> nat list \<Rightarrow> factor list \<Rightarrow> matrix \<Rightarrow> bool" where
  "split_plot_design coords col_start alphas betas factors Y \<longleftrightarrow>
     list_all (\<lambda>(i, (level, cat_lvl)).
        (case np_index betas level of
           Inl e \<Rightarrow> False
         | Inr jmp \<Rightarrow>
             (case np_index alphas level of
                Inl e \<Rightarrow> False
              | Inr n_grp \<Rightarrow>
                  i < length col_start \<and> i < length coords \<and> rectangular (coords ! i) \<and>
                  list_all (\<lambda>row. col_start ! i + shape1 (coords ! i) \<le> length row) Y \<and>
                  list_all (\<lambda>grp. block_constant Y (grp * jmp, (grp + 1) * jmp)
                                     (col_start ! i, col_start ! i + shape1 (coords ! i)))
                    [0..<n_grp])))
       (enumerate 0 factors)"

text \<open>
  The array after \<^verbatim>\<open>Y[runs, cols] = v\<close> when the columns from \<open>c\<close> on have room
  for \<open>v\<close> in every run.
\<close>

definition block_written :: "matrix \<Rightarrow> nat \<times> nat \<Rightarrow> nat \<Rightarrow> vector \<Rightarrow> matrix" where
  "block_written Y runs c v =
     map (\<lambda>k. if fst runs \<le> k \<and> k < snd runs
              then take c (Y ! k) @ v @ drop (c + length v) (Y ! k)
              else Y ! k) [0..<length Y]"

text \<open>
  A design on which \<open>update\<close> accepts no candidate. \<open>optimize\<close> calls \<open>update\<close> for
  every factor, every block of the factor and every candidate that differs from
  the coordinate in the first run of the block, with the model matrix \<open>X\<close> of the
  design and the model matrix of the block with the candidate written into it. On
  such a design each of these calls answers ``not accepted'' or raises an
  exception that derives from \<^verbatim>\<open>Exception\<close>. \<open>optimize\<close> goes on with the state
  that \<open>update\<close> returns, also when the candidate is not accepted, so this is
  asked of every state of a set \<open>reached\<close> which the calls do not leave.
\<close>

definition never_accepts ::
  "('m, 'p, 'z) optim \<Rightarrow> ('z cstate_scheme \<Rightarrow> bool) \<Rightarrow> model_spec \<Rightarrow> matrix list \<Rightarrow> nat list \<Rightarrow>
     nat list \<Rightarrow> nat list \<Rightarrow> factor list \<Rightarrow> matrix \<Rightarrow> matrix \<Rightarrow> bool" where
  "never_accepts optim reached model coords col_start alphas betas factors Y X \<longleftrightarrow>
     (\<forall>st. reached st \<longrightarrow>
        list_all (\<lambda>(i, (level, cat_lvl)).
          (case np_index betas level of
             Inl e \<Rightarrow> True
           | Inr jmp \<Rightarrow>
               (case np_index alphas level of
                  Inl e \<Rightarrow> True
                | Inr n_grp \<Rightarrow>
                    list_all (\<lambda>grp.
                      list_all (\<lambda>new_coord.
                        new_coord = np_slice (col_start ! i) (col_start ! i + shape1 (coords ! i))
                                      (Y ! (grp * jmp)) \<or>
                        (case x2fx (np_slice (grp * jmp) ((grp + 1) * jmp)
                                      (block_written Y (grp * jmp, (grp + 1) * jmp)
                                         (col_start ! i) new_coord)) model of
                           Inl e \<Rightarrow> False
                         | Inr Xi \<Rightarrow>
                             (case update optim st X Xi level grp of
                                Inl e \<Rightarrow> isinstance_Exception e
                              | Inr (accept, st') \<Rightarrow> \<not> accept \<and> reached st')))
                        (coords ! i)) [0..<n_grp])))
          (enumerate 0 factors))"

text \<open>
  The criterion of the examples with an \<open>update\<close> that accepts no candidate, and
  the same with a metric that is not-a-number for a model matrix of zeros.
\<close>

definition rejecting_criterion :: "(model_spec, unit, unit) optim" where
  "rejecting_criterion = squares_criterion\<lparr>update := (\<lambda>st X Xi level grp. Inr (False, st))\<rparr>"

definition nan_criterion :: "(model_spec, unit, unit) optim" where
  "nan_criterion =
     rejecting_criterion\<lparr>metric := (\<lambda>st Y X.
        Inr (if sumsq X = 0 then NaN else Finite (sumsq X)))\<rparr>"

section \<open>Theorems\<close>

subsection \<open>x2fx computes the model matrix\<close>

lemma map2_map_same: "map2 f (map g Y) (map h Y) = map (\<lambda>r. f (g r) (h r)) Y"
  by (induction Y) auto

lemma column_ok:
  "list_all (\<lambda>row. j < length row) Y \<Longrightarrow> column Y j = Inr (map (\<lambda>row. row ! j) Y)"
  by (simp add: column_def)

text \<open>
  The inner loop, started on an accumulator that holds \<open>g row\<close> for every run,
  multiplies it by the factors it visits, one after the other.
\<close>

lemma x2fx_factors_map:
  "list_all (\<lambda>j. term ! j = 0 \<or> list_all (\<lambda>row. j < length row) Y) js \<Longrightarrow>
   x2fx_factors ar Y term js (map g Y) =
     Inr (map (\<lambda>row. foldl (f_mul ar) (g row)
                 (map (\<lambda>j. if term ! j = 1 then row ! j else f_pow ar (row ! j) (term ! j))
                    (filter (\<lambda>j. term ! j \<noteq> 0) js))) Y)"
proof (induction js arbitrary: g)
  case Nil
  then show ?case by simp
next
  case (Cons j js)
  show ?case
  proof (cases "term ! j = 0")
    case True
    with Cons show ?thesis by simp
  next
    case False
    with Cons.prems have inr: "list_all (\<lambda>row. j < length row) Y"
      and rest: "list_all (\<lambda>j. term ! j = 0 \<or> list_all (\<lambda>row. j < length row) Y) js"
      by auto
    show ?thesis
    proof (cases "term ! j = 1")
      case True
      have "x2fx_factors ar Y term (j # js) (map g Y) =
            x2fx_factors ar Y term js (map (\<lambda>r. f_mul ar (g r) (r ! j)) Y)"
        using True inr by (simp add: column_ok map2_map_same)
      also note Cons.IH [OF rest, of "\<lambda>r. f_mul ar (g r) (r ! j)"]
      finally show ?thesis using True by simp
    next
      case power: False
      have "x2fx_factors ar Y term (j # js) (map g Y) =
            x2fx_factors ar Y term js (map (\<lambda>r. f_mul ar (g r) (f_pow ar (r ! j) (term ! j))) Y)"
        using power False inr
        by (simp add: column_ok comp_def
            map2_map_same [of "f_mul ar" g Y "\<lambda>r. f_pow ar (r ! j) (term ! j)", simplified])
      also note Cons.IH [OF rest, of "\<lambda>r. f_mul ar (g r) (f_pow ar (r ! j) (term ! j))"]
      finally show ?thesis using False power by simp
    qed
  qed
qed

lemma set_column_map:
  "set_column (map f Y) i (map g Y) = map (\<lambda>r. (f r)[i := g r]) Y"
  by (simp add: set_column_def map2_map_same)

text \<open>
  The outer loop: when the terms \<open>done\<close> are written and the terms \<open>rest\<close> are
  still zero columns, the loop over \<open>rest\<close> fills them in.
\<close>

lemma x2fx_terms_map:
  assumes "list_all (\<lambda>term. length term = shape1 model \<and>
             list_all (\<lambda>j. term ! j = 0 \<or> list_all (\<lambda>row. j < length row) Y)
                      [0..<length term]) rest"
  shows "x2fx_terms ar Y model (length done) rest
           (map (\<lambda>row. map (term_value ar row) done @ replicate (length rest) (f_zero ar)) Y)
         = Inr (map (\<lambda>row. map (term_value ar row) (done @ rest)) Y)"
  using assms
proof (induction rest arbitrary: "done")
  case Nil
  then show ?case by simp
next
  case (Cons t rest)
  from Cons.prems have len: "length t = shape1 model"
    and inr: "list_all (\<lambda>j. t ! j = 0 \<or> list_all (\<lambda>row. j < length row) Y)
                [0..<shape1 model]"
    and rest: "list_all (\<lambda>term. length term = shape1 model \<and>
                 list_all (\<lambda>j. term ! j = 0 \<or> list_all (\<lambda>row. j < length row) Y)
                          [0..<length term]) rest"
    by auto
  have p: "x2fx_factors ar Y t [0..<shape1 model] (replicate (length Y) (f_one ar)) =
           Inr (map (\<lambda>row. term_value ar row t) Y)"
    using x2fx_factors_map [OF inr, of ar "\<lambda>_. f_one ar"] len
    by (simp add: term_value_def map_replicate_const)
  have upd: "set_column
               (map (\<lambda>row. map (term_value ar row) done @
                             replicate (length (t # rest)) (f_zero ar)) Y)
               (length done) (map (\<lambda>row. term_value ar row t) Y)
             = map (\<lambda>row. map (term_value ar row) (done @ [t]) @
                            replicate (length rest) (f_zero ar)) Y"
    by (simp add: set_column_map list_update_append)
  show ?case
    using Cons.IH [OF rest, of "done @ [t]"] p upd by simp
qed

lemma x2fx_with_eq_model_matrix:
  assumes "rectangular model" and "factors_in_range Y model"
  shows "x2fx_with ar Y model = Inr (model_matrix ar Y model)"
proof -
  have "list_all (\<lambda>term. length term = shape1 model \<and>
          list_all (\<lambda>j. term ! j = 0 \<or> list_all (\<lambda>row. j < length row) Y)
                   [0..<length term]) model"
    using assms by (auto simp: rectangular_def factors_in_range_def list_all_iff)
  from x2fx_terms_map [OF this, of ar "[]"] show ?thesis
    by (simp add: x2fx_with_def model_matrix_def map_replicate_const)
qed

lemma x2fx_eq_model_matrix:
  assumes "rectangular model" and "factors_in_range Y model"
  shows "x2fx Y model = Inr (model_matrix exact_arith Y model)"
  unfolding x2fx_def using assms by (rule x2fx_with_eq_model_matrix)

lemma term_value_intercept:
  "list_all (\<lambda>e. e = 0) term \<Longrightarrow> term_value ar row term = f_one ar"
proof -
  assume "list_all (\<lambda>e. e = 0) term"
  then have "filter (\<lambda>j. term ! j \<noteq> 0) [0..<length term] = []"
    by (auto simp: filter_empty_conv list_all_length)
  then show ?thesis by (simp add: term_value_def)
qed

text \<open>
  Claim C4. For a design matrix \<open>Y\<close> (the whole design or one run-block, a list of
  runs) and a model whose terms only use factors that are columns of \<open>Y\<close>,
  \<open>x2fx\<close> returns, without raising, a matrix with one row per run of \<open>Y\<close> and one
  column per term of the model; the entry of run \<open>k\<close> and term \<open>i\<close> is the product,
  over the factors \<open>j\<close> with a nonzero exponent in term \<open>i\<close>, of the value of \<open>j\<close> in
  run \<open>k\<close> raised to that exponent, the value itself when the exponent is 1; a
  term of zeros gives the column of ones. The product is taken in the arithmetic
  of the entries, whatever it is, from 1 on and in the order of the factors. The
  result is a function of \<open>Y\<close> and the model alone.
\<close>

theorem x2fx_model_matrix:
  assumes "rectangular model" and "factors_in_range Y model"
  shows "\<exists>X. x2fx_with ar Y model = Inr X \<and> length X = length Y \<and>
           (\<forall>k<length Y. length (X ! k) = length model \<and>
              (\<forall>i<length model.
                 X ! k ! i =
                   foldl (f_mul ar) (f_one ar)
                     (map (\<lambda>j. if model ! i ! j = 1 then Y ! k ! j
                               else f_pow ar (Y ! k ! j) (model ! i ! j))
                        (filter (\<lambda>j. model ! i ! j \<noteq> 0) [0..<length (model ! i)])) \<and>
                 (list_all (\<lambda>e. e = 0) (model ! i) \<longrightarrow> X ! k ! i = f_one ar)))"
proof -
  have "x2fx_with ar Y model = Inr (model_matrix ar Y model)"
    using assms by (rule x2fx_with_eq_model_matrix)
  moreover have "length (model_matrix ar Y model) = length Y"
    by (simp add: model_matrix_def)
  moreover have "\<forall>k<length Y. length (model_matrix ar Y model ! k) = length model \<and>
      (\<forall>i<length model.
         model_matrix ar Y model ! k ! i =
           foldl (f_mul ar) (f_one ar)
             (map (\<lambda>j. if model ! i ! j = 1 then Y ! k ! j
                       else f_pow ar (Y ! k ! j) (model ! i ! j))
                (filter (\<lambda>j. model ! i ! j \<noteq> 0) [0..<length (model ! i)])) \<and>
         (list_all (\<lambda>e. e = 0) (model ! i) \<longrightarrow> model_matrix ar Y model ! k ! i = f_one ar))"
    by (simp add: model_matrix_def term_value_intercept) (simp add: term_value_def)
  ultimately show ?thesis by blast
qed

theorem x2fx_model_matrix_witness:
  "rectangular [[0, 0], [1, 0], [0, 1], [1, 2::nat]] \<and>
   factors_in_range [[2, 3], [4, 5::real]] [[0, 0], [1, 0], [0, 1], [1, 2]] \<and>
   x2fx_with exact_arith [[2, 3], [4, 5]] [[0, 0], [1, 0], [0, 1], [1, 2]] =
     Inr [[1, 2, 3, 18], [1, 4, 5, 100]] \<and>
   x2fx_with exact_arith [[2, 3]] [[1, 0], [0, 1]] = Inr [[2, 3]] \<and>
   x2fx_with exact_arith [[2, 3], [4, 5]] [[0, 0]] = Inr [[1], [1]] \<and>
   rectangular [[1, 1, 1::nat], [2, 0, 0]] \<and>
   factors_in_range [[Finite 4, Finite 3, Finite 0]] [[1, 1, 1], [2, 0, 0]] \<and>
   x2fx_with overflow_arith [[Finite 4, Finite 3, Finite 0]] [[1, 1, 1], [2, 0, 0]] =
     Inr [[NaN, PosInf]]"
proof -
  have r: "rectangular [[0, 0], [1, 0], [0, 1], [1, 2::nat]]"
    by (simp add: rectangular_def shape1_def)
  have f: "factors_in_range [[2, 3], [4, 5::real]] [[0, 0], [1, 0], [0, 1], [1, 2]]"
    by (simp add: factors_in_range_def)
  have e: "x2fx_with exact_arith [[2, 3], [4, 5]] [[0, 0], [1, 0], [0, 1], [1, 2]] =
             Inr [[1, 2, 3, 18], [1, 4, 5, 100]]"
    by (simp add: x2fx_with_def exact_arith_def shape1_def column_def set_column_def)
  from x2fx_model_matrix [OF r f, where ar = exact_arith] obtain X where
    "x2fx_with exact_arith [[2, 3], [4, 5]] [[0, 0], [1, 0], [0, 1], [1, 2]] = Inr X" by blast
  with e have "X = [[1, 2, 3, 18], [1, 4, 5, 100]]" by simp
  moreover have "x2fx_with exact_arith [[2, 3]] [[1, 0], [0, 1]] = Inr [[2, 3]]"
    by (simp add: x2fx_with_def exact_arith_def shape1_def column_def set_column_def)
  moreover have "x2fx_with exact_arith [[2, 3], [4, 5]] [[0, 0]] = Inr [[1], [1]]"
    by (simp add: x2fx_with_def exact_arith_def shape1_def column_def set_column_def)
  moreover have "rectangular [[1, 1, 1::nat], [2, 0, 0]]"
    by (simp add: rectangular_def shape1_def)
  moreover have "factors_in_range [[Finite 4, Finite 3, Finite 0]] [[1, 1, 1], [2, 0, 0]]"
    by (simp add: factors_in_range_def)
  moreover have "x2fx_with overflow_arith [[Finite 4, Finite 3, Finite 0]]
                   [[1, 1, 1], [2, 0, 0]] = Inr [[NaN, PosInf]]"
    by (simp add: x2fx_with_def overflow_arith_def overflow_def shape1_def column_def
        set_column_def numeral_2_eq_2)
  ultimately show ?thesis using r f e by simp
qed

subsection \<open>generate_coordinates\<close>

lemma np_eye_nth:
  "i < n \<Longrightarrow> j < n \<Longrightarrow> np_eye n ! i ! j = (if i = j then 1 else 0)"
  by (simp add: np_eye_def)

text \<open>
  Claim C5. \<open>generate_coordinates\<close> returns the coordinates it is given (an array
  that has entries) as they are. Given none, it returns \<open>[-1], [0], [1]\<close> for a
  level count of at most 1, and for \<open>L > 1\<close> levels it returns \<open>L\<close> rows of \<open>L - 1\<close>
  entries: the identity matrix of size \<open>L - 1\<close>, then one row of \<open>-1\<close>. So
  \<open>generate_coordinates(1)\<close> is \<open>[-1], [0], [1]\<close> and \<open>generate_coordinates(3)\<close> is
  \<open>[1, 0], [0, 1], [-1, -1]\<close>, in that order.
\<close>

theorem generate_coordinates_cases:
  "(size2 dflt \<noteq> 0 \<longrightarrow> generate_coordinates cat_lvl dflt = dflt) \<and>
   (size2 dflt = 0 \<and> cat_lvl \<le> 1 \<longrightarrow>
      generate_coordinates cat_lvl dflt = [[-1], [0], [1]]) \<and>
   (size2 dflt = 0 \<and> 1 < cat_lvl \<longrightarrow>
      length (generate_coordinates cat_lvl dflt) = nat cat_lvl \<and>
      (\<forall>i<nat cat_lvl. length (generate_coordinates cat_lvl dflt ! i) = nat cat_lvl - 1) \<and>
      (\<forall>i<nat cat_lvl - 1. \<forall>j<nat cat_lvl - 1.
         generate_coordinates cat_lvl dflt ! i ! j = (if i = j then 1 else 0)) \<and>
      generate_coordinates cat_lvl dflt ! (nat cat_lvl - 1) = replicate (nat cat_lvl - 1) (-1)) \<and>
   generate_coordinates 1 [[]] = [[-1], [0], [1]] \<and>
   generate_coordinates 3 [[]] = [[1, 0], [0, 1], [-1, -1]]"
proof -
  have given: "size2 dflt \<noteq> 0 \<longrightarrow> generate_coordinates cat_lvl dflt = dflt"
    by (simp add: generate_coordinates_def)
  have continuous: "size2 dflt = 0 \<and> cat_lvl \<le> 1 \<longrightarrow>
      generate_coordinates cat_lvl dflt = [[-1], [0], [1]]"
    by (simp add: generate_coordinates_def)
  have categorical: "size2 dflt = 0 \<and> 1 < cat_lvl \<longrightarrow>
      length (generate_coordinates cat_lvl dflt) = nat cat_lvl \<and>
      (\<forall>i<nat cat_lvl. length (generate_coordinates cat_lvl dflt ! i) = nat cat_lvl - 1) \<and>
      (\<forall>i<nat cat_lvl - 1. \<forall>j<nat cat_lvl - 1.
         generate_coordinates cat_lvl dflt ! i ! j = (if i = j then 1 else 0)) \<and>
      generate_coordinates cat_lvl dflt ! (nat cat_lvl - 1) = replicate (nat cat_lvl - 1) (-1)"
  proof
    assume a: "size2 dflt = 0 \<and> 1 < cat_lvl"
    define n where "n = nat (cat_lvl - 1)"
    have n: "nat cat_lvl = Suc n" "nat cat_lvl - 1 = n"
      using a by (auto simp: n_def)
    have g: "generate_coordinates cat_lvl dflt = np_eye n @ [replicate n (-1)]"
      using a by (simp add: generate_coordinates_def n_def np_ones2_def Let_def)
    have len: "length (np_eye n) = n" by (simp add: np_eye_def)
    have rows: "\<And>i. i < n \<Longrightarrow> length (np_eye n ! i) = n" by (simp add: np_eye_def)
    show "length (generate_coordinates cat_lvl dflt) = nat cat_lvl \<and>
      (\<forall>i<nat cat_lvl. length (generate_coordinates cat_lvl dflt ! i) = nat cat_lvl - 1) \<and>
      (\<forall>i<nat cat_lvl - 1. \<forall>j<nat cat_lvl - 1.
         generate_coordinates cat_lvl dflt ! i ! j = (if i = j then 1 else 0)) \<and>
      generate_coordinates cat_lvl dflt ! (nat cat_lvl - 1) = replicate (nat cat_lvl - 1) (-1)"
      unfolding g n using len rows
      by (auto simp: nth_append np_eye_nth less_Suc_eq)
  qed
  have one: "generate_coordinates 1 [[]] = [[-1], [0], [1]]"
    by (simp add: generate_coordinates_def size2_def)
  have three: "generate_coordinates 3 [[]] = [[1, 0], [0, 1], [-1, -1]]"
    by code_simp
  from given continuous categorical one three show ?thesis by blast
qed

theorem generate_coordinates_cases_witness:
  "size2 [[5, 7]] \<noteq> 0 \<and> generate_coordinates 1 [[5, 7]] = [[5, 7]] \<and>
   size2 [[]] = 0 \<and> (0::int) \<le> 1 \<and> generate_coordinates 0 [[]] = [[-1], [0], [1]] \<and>
   (1::int) < 4 \<and> length (generate_coordinates 4 [[]]) = 4 \<and>
   generate_coordinates 4 [[]] ! 3 = [-1, -1, -1] \<and>
   generate_coordinates 4 [[]] ! 1 ! 1 = 1 \<and> generate_coordinates 4 [[]] ! 1 ! 2 = 0"
proof -
  have s: "size2 [[5, 7]] \<noteq> 0" "size2 [[]] = 0" by (simp_all add: size2_def)
  have three: "replicate (nat 4 - 1) (- 1 :: real) = [-1, -1, -1]" by code_simp
  show ?thesis
    using generate_coordinates_cases [of "[[5, 7]]" 1]
      generate_coordinates_cases [of "[[]]" 0]
      generate_coordinates_cases [of "[[]]" 4] s three
    by simp
qed


subsection \<open>Failures of the criterion inside optimize\<close>

lemma bind_Inr [simp]: "bind (Inr v) f = f v"
  by (simp add: bind_def)

lemma bind_Inl [simp]: "bind (Inl e) f = Inl e"
  by (simp add: bind_def)

text \<open>A loop ends with the first exception of its body.\<close>

lemma for_each_raises:
  "for_each body xs s = Inr s' \<Longrightarrow> body x s' = Inl e \<Longrightarrow>
   for_each body (xs @ x # ys) s = Inl e"
proof (induction xs arbitrary: s)
  case Nil
  then show ?case by simp
next
  case (Cons a xs)
  then show ?case by (cases "body a s") auto
qed

lemma try_update_catching:
  "try_update (catching optim) st X Xi level grp = try_update optim st X Xi level grp"
  by (auto simp: try_update_def catching_def split: sum.splits)

lemma try_coordinate_catching:
  "try_coordinate (catching optim) model level grp runs cols init_coord =
   try_coordinate optim model level grp runs cols init_coord"
proof (rule ext, rule ext)
  fix new_coord bs
  show "try_coordinate (catching optim) model level grp runs cols init_coord new_coord bs =
        try_coordinate optim model level grp runs cols init_coord new_coord bs"
    by (cases bs) (simp add: try_coordinate_def try_update_catching cong: if_cong)
qed

lemma scan_block_catching:
  "scan_block (catching optim) model pcl i level jmp col =
   scan_block optim model pcl i level jmp col"
  by (rule ext, rule ext) (simp add: scan_block_def try_coordinate_catching)

lemma scan_factor_catching:
  "scan_factor (catching optim) model pcl alphas betas col_start =
   scan_factor optim model pcl alphas betas col_start"
proof (rule ext, rule ext)
  fix ifactor s
  show "scan_factor (catching optim) model pcl alphas betas col_start ifactor s =
        scan_factor optim model pcl alphas betas col_start ifactor s"
    by (cases ifactor) (simp add: scan_factor_def scan_block_catching)
qed

lemma sweep_catching:
  "sweep (catching optim) model factors pcl alphas betas col_start =
   sweep optim model factors pcl alphas betas col_start"
  by (rule ext) (simp add: sweep_def scan_factor_catching)

lemma optimize_catching:
  "optimize ivs Y model plot_sizes factors (catching optim) prestate max_it col_start
     default_coords =
   optimize ivs Y model plot_sizes factors optim prestate max_it col_start default_coords"
proof -
  have "init (catching optim) = init optim" "metric (catching optim) = metric optim"
    by (simp_all add: catching_def)
  then show ?thesis
    by (simp add: optimize_def optimize_run_def sweep_catching)
qed

lemma try_coordinate_update_raises:
  assumes "set_block (cur_Y s) runs cols new_coord = Inr Y'"
    and "np_all_eq new_coord init_coord = Inr False"
    and "x2fx (np_slice (fst runs) (snd runs) Y') model = Inr Xi_star"
    and "update optim (cur_state s) (cur_X s) Xi_star level grp = Inl e"
  shows "try_coordinate optim model level grp runs cols init_coord new_coord (best_coord, s) =
           (if isinstance_Exception e then Inr (best_coord, s\<lparr>cur_Y := Y'\<rparr>) else Inl e)"
proof -
  have "try_update optim (cur_state s) (cur_X s) Xi_star level grp =
          (if isinstance_Exception e then Inr (False, cur_state s) else Inl e)"
    using assms(4) by (simp add: try_update_def)
  then show ?thesis
    using assms(1-3) by (simp add: try_coordinate_def)
qed

lemma example_set_block: "set_block [[0]] (0, 1) (0, 1) [-1] = Inr [[-1]]"
  by (simp add: set_block_def shape1_def np_slice_def broadcast_to_def)

lemma example_np_all_eq: "np_all_eq [-1] [0] = Inr False"
  by (simp add: np_all_eq_def)

lemma example_x2fx: "x2fx (np_slice 0 1 [[-1]]) [[1]] = Inr [[-1]]"
  by (simp add: x2fx_def x2fx_with_def exact_arith_def np_slice_def shape1_def column_def
      set_column_def)

lemma update_failing_criterion: "update (failing_criterion e) st X Xi level grp = Inl e"
  by (simp add: failing_criterion_def)

text \<open>
  Claim C3. When, for a candidate coordinate that \<open>optimize\<close> evaluates, the
  call of the criterion's \<open>update\<close> raises a numerical error (any exception that
  derives from \<^verbatim>\<open>Exception\<close>, as \<^verbatim>\<open>LinAlgError\<close> does), the candidate is not
  accepted: the best coordinate, the model matrix, the flag \<open>updated\<close> and the state
  of the criterion stay as they were before the call, and the scan of the block
  goes on with the remaining candidates. For \<open>optimize\<close> as a whole such a failure
  is the same as the answer ``not accepted'' with the state unchanged.
\<close>

theorem update_failure_rejects_candidate:
  assumes "set_block (cur_Y s) runs cols new_coord = Inr Y'"
    and "np_all_eq new_coord init_coord = Inr False"
    and "x2fx (np_slice (fst runs) (snd runs) Y') model = Inr Xi_star"
    and "update optim (cur_state s) (cur_X s) Xi_star level grp = Inl e"
    and "isinstance_Exception e"
  shows "try_coordinate optim model level grp runs cols init_coord new_coord (best_coord, s) =
           Inr (best_coord, s\<lparr>cur_Y := Y'\<rparr>) \<and>
         for_each (try_coordinate optim model level grp runs cols init_coord)
             (new_coord # rest) (best_coord, s) =
           for_each (try_coordinate optim model level grp runs cols init_coord)
             rest (best_coord, s\<lparr>cur_Y := Y'\<rparr>) \<and>
         optimize ivs Y model plot_sizes factors (catching optim) prestate max_it col_start
             default_coords =
           optimize ivs Y model plot_sizes factors optim prestate max_it col_start
             default_coords"
  using try_coordinate_update_raises [OF assms(1-4), of best_coord] assms(5)
  by (simp add: optimize_catching)

theorem update_failure_rejects_candidate_witness:
  "isinstance_Exception LinAlgError \<and>
   update (failing_criterion LinAlgError) \<lparr>V = [], Minv = []\<rparr> [[0]] [[-1]] 0 0 = Inl LinAlgError \<and>
   for_each (try_coordinate (failing_criterion LinAlgError) [[1]] 0 0 (0, 1) (0, 1) [0])
       [[-1], [0], [1]]
       ([0], \<lparr>cur_Y = [[0]], cur_X = [[0]], cur_state = \<lparr>V = [], Minv = []\<rparr>,
              updated = False\<rparr>) =
     for_each (try_coordinate (failing_criterion LinAlgError) [[1]] 0 0 (0, 1) (0, 1) [0])
       [[0], [1]]
       ([0], \<lparr>cur_Y = [[-1]], cur_X = [[0]], cur_state = \<lparr>V = [], Minv = []\<rparr>,
              updated = False\<rparr>)"
proof -
  let ?s = "\<lparr>cur_Y = [[0]], cur_X = [[0]], cur_state = \<lparr>V = [], Minv = []\<rparr>,
            updated = False\<rparr> :: unit sweep_state"
  have h1: "set_block (cur_Y ?s) (0, 1) (0, 1) [-1] = Inr [[-1]]"
    using example_set_block by simp
  have h3: "x2fx (np_slice (fst (0, 1)) (snd (0, 1)) [[-1]]) [[1]] = Inr [[-1]]"
    using example_x2fx by simp
  have h4: "update (failing_criterion LinAlgError) (cur_state ?s) (cur_X ?s) [[-1]] 0 0 =
              Inl LinAlgError"
    by (simp add: update_failing_criterion)
  have h5: "isinstance_Exception LinAlgError" by simp
  from update_failure_rejects_candidate
         [OF h1 example_np_all_eq h3 h4 h5, of "[0]" "[[0], [1]]"]
  have "for_each (try_coordinate (failing_criterion LinAlgError) [[1]] 0 0 (0, 1) (0, 1) [0])
          ([-1] # [[0], [1]]) ([0], ?s) =
        for_each (try_coordinate (failing_criterion LinAlgError) [[1]] 0 0 (0, 1) (0, 1) [0])
          [[0], [1]] ([0], ?s\<lparr>cur_Y := [[-1]]\<rparr>)"
    by blast
  then show ?thesis
    using h5 by (simp add: update_failing_criterion)
qed

text \<open>
  Claim C2, as stated, fails: \<open>optimize\<close> catches \<^verbatim>\<open>Exception\<close>, so a
  \<^verbatim>\<open>TypeError\<close> raised by \<open>update\<close>, which is no numerical singularity, is turned
  into a rejection and \<open>optimize\<close> returns normally.
\<close>

theorem update_type_error_counterexample:
  "update (failing_criterion TypeError) \<lparr>V = [], Minv = []\<rparr> [[0]] [[-1]] 0 0 = Inl TypeError \<and>
   optimize (\<lambda>V X. Inr []) [[0]] [[1]] [1] [(0, 1)] (failing_criterion TypeError) () 10
     None None = Inr ([[0]], Finite 0) \<and>
   doe 1 list_collaborators [[1]] [1] [(0, 1)] 1 10 None (failing_criterion TypeError) None
     None [[[0]]] = Some (Inr ([[0]], [Finite 0]))"
proof -
  have "optimize (\<lambda>V X. Inr []) [[0]] [[1]] [1] [(0, 1)] (failing_criterion TypeError) ()
          10 None None = Inr ([[0]], Finite 0)"
    by code_simp
  moreover have "doe 1 list_collaborators [[1]] [1] [(0, 1)] 1 10 None
      (failing_criterion TypeError) None None [[[0]]] = Some (Inr ([[0]], [Finite 0]))"
    by code_simp
  ultimately show ?thesis by (simp add: update_failing_criterion)
qed

text \<open>
  Claim C2, amended. A failure of \<open>update\<close> leaves the scan of the candidates, and
  with it \<open>optimize\<close>, whose loops end at the first exception, only when it does not
  derive from \<^verbatim>\<open>Exception\<close> (\<^verbatim>\<open>KeyboardInterrupt\<close>, \<^verbatim>\<open>SystemExit\<close>); every
  exception that does, numerical or not, is turned into a rejection of the
  candidate. \<open>doe\<close> passes to its caller every failure of \<open>optimize\<close> that is not a
  \<^verbatim>\<open>LinAlgError\<close>.
\<close>

theorem update_failure_propagation:
  assumes "set_block (cur_Y s) runs cols new_coord = Inr Y'"
    and "np_all_eq new_coord init_coord = Inr False"
    and "x2fx (np_slice (fst runs) (snd runs) Y') model = Inr Xi_star"
    and "update optim (cur_state s) (cur_X s) Xi_star level grp = Inl e"
  shows "(isinstance_Exception e \<longrightarrow>
            try_coordinate optim model level grp runs cols init_coord new_coord (best_coord, s) =
              Inr (best_coord, s\<lparr>cur_Y := Y'\<rparr>)) \<and>
         (\<not> isinstance_Exception e \<longrightarrow>
            for_each (try_coordinate optim model level grp runs cols init_coord)
              (new_coord # rest) (best_coord, s) = Inl e) \<and>
         (optimize (inv_solve imp)
              (encode_design imp
                 (fst (initialize_single imp (rng d) plot_sizes factors (template_Y d)
                         default_coords)) factors)
              model_enc plot_sizes factors crit prestate max_it None default_coords = Inl e' \<and>
            \<not> isinstance_LinAlgError e' \<and> tries_done d < n_tries \<longrightarrow>
            doe_loop (Suc fuel)
              (doe_attempt imp model_enc plot_sizes factors max_it it_callback crit prestate
                 default_coords) n_tries d = Some (Inl e'))"
proof -
  have "optimize (inv_solve imp)
              (encode_design imp
                 (fst (initialize_single imp (rng d) plot_sizes factors (template_Y d)
                         default_coords)) factors)
              model_enc plot_sizes factors crit prestate max_it None default_coords = Inl e' \<and>
            \<not> isinstance_LinAlgError e' \<and> tries_done d < n_tries \<longrightarrow>
            doe_loop (Suc fuel)
              (doe_attempt imp model_enc plot_sizes factors max_it it_callback crit prestate
                 default_coords) n_tries d = Some (Inl e')"
    by (auto simp: doe_attempt_def Let_def split: prod.splits)
  then show ?thesis
    using try_coordinate_update_raises [OF assms, of best_coord] by simp
qed

theorem update_failure_propagation_witness:
  "\<not> isinstance_Exception KeyboardInterrupt \<and> isinstance_Exception TypeError \<and>
   \<not> isinstance_LinAlgError KeyboardInterrupt \<and>
   for_each (try_coordinate (failing_criterion KeyboardInterrupt) [[1]] 0 0 (0, 1) (0, 1) [0])
       [[-1], [0], [1]]
       ([0], \<lparr>cur_Y = [[0]], cur_X = [[0]], cur_state = \<lparr>V = [], Minv = []\<rparr>,
              updated = False\<rparr>) = Inl KeyboardInterrupt \<and>
   try_coordinate (failing_criterion TypeError) [[1]] 0 0 (0, 1) (0, 1) [0] [-1]
       ([0], \<lparr>cur_Y = [[0]], cur_X = [[0]], cur_state = \<lparr>V = [], Minv = []\<rparr>,
              updated = False\<rparr>) =
     Inr ([0], \<lparr>cur_Y = [[-1]], cur_X = [[0]], cur_state = \<lparr>V = [], Minv = []\<rparr>,
                updated = False\<rparr>) \<and>
   doe_loop (Suc 0)
     (doe_attempt list_collaborators [[1]] [1] [(0, 1)] 10 (\<lambda>x w. (None, w))
        (failing_criterion KeyboardInterrupt) () None) 1
     \<lparr>tries_done = 0, metrics = [Finite 0], best_metric = NegInf, best_Y = None,
      template_Y = [[0]], rng = [[[0]]], history = []\<rparr> =
     Some (Inl KeyboardInterrupt)"
proof -
  have opt: "optimize (inv_solve list_collaborators)
      (encode_design list_collaborators
         (fst (initialize_single list_collaborators [[[0]]] [1] [(0, 1)] [[0]] None)) [(0, 1)])
      [[1]] [1] [(0, 1)] (failing_criterion KeyboardInterrupt) () 10 None None =
      Inl KeyboardInterrupt"
    by code_simp
  let ?s = "\<lparr>cur_Y = [[0]], cur_X = [[0]], cur_state = \<lparr>V = [], Minv = []\<rparr>,
            updated = False\<rparr> :: unit sweep_state"
  let ?d = "\<lparr>tries_done = 0, metrics = [Finite 0], best_metric = NegInf, best_Y = None,
            template_Y = [[0]], rng = [[[0]]], history = []\<rparr>
            :: matrix list doe_state"
  have h1: "set_block (cur_Y ?s) (0, 1) (0, 1) [-1] = Inr [[-1]]"
    using example_set_block by simp
  have h3: "x2fx (np_slice (fst (0, 1)) (snd (0, 1)) [[-1]]) [[1]] = Inr [[-1]]"
    using example_x2fx by simp
  have h4: "update (failing_criterion e) (cur_state ?s) (cur_X ?s) [[-1]] 0 0 = Inl e" for e
    by (simp add: update_failing_criterion)
  have opt': "optimize (inv_solve list_collaborators)
      (encode_design list_collaborators
         (fst (initialize_single list_collaborators (rng ?d) [1] [(0, 1)] (template_Y ?d)
                 None)) [(0, 1)])
      [[1]] [1] [(0, 1)] (failing_criterion KeyboardInterrupt) () 10 None None =
      Inl KeyboardInterrupt"
    using opt by simp
  have k: "\<not> isinstance_Exception KeyboardInterrupt" "\<not> isinstance_LinAlgError KeyboardInterrupt"
    "isinstance_Exception TypeError" "tries_done ?d < 1"
    by simp_all
  from update_failure_propagation
         [OF h1 example_np_all_eq h3 h4 [of KeyboardInterrupt],
          where best_coord = "[0]" and rest = "[[0], [1]]" and imp = list_collaborators
            and d = ?d and plot_sizes = "[1]" and factors = "[(0, 1)]"
            and default_coords = None and model_enc = "[[1]]"
            and crit = "failing_criterion KeyboardInterrupt" and prestate = "()"
            and max_it = 10 and e' = KeyboardInterrupt and n_tries = 1 and fuel = 0
            and it_callback = "\<lambda>x w. (None, w)"] k opt'
  have a: "for_each (try_coordinate (failing_criterion KeyboardInterrupt) [[1]] 0 0 (0, 1)
                      (0, 1) [0]) ([-1] # [[0], [1]]) ([0], ?s) = Inl KeyboardInterrupt"
    and b: "doe_loop (Suc 0)
     (doe_attempt list_collaborators [[1]] [1] [(0, 1)] 10 (\<lambda>x w. (None, w))
        (failing_criterion KeyboardInterrupt) () None) 1 ?d = Some (Inl KeyboardInterrupt)"
    by blast+
  from update_failure_propagation
         [OF h1 example_np_all_eq h3 h4 [of TypeError], where best_coord = "[0]",
          THEN conjunct1] k
  have c: "try_coordinate (failing_criterion TypeError) [[1]] 0 0 (0, 1) (0, 1) [0] [-1]
             ([0], ?s) = Inr ([0], ?s\<lparr>cur_Y := [[-1]]\<rparr>)"
    by simp
  show ?thesis
    using a b c k by simp
qed

subsection \<open>The ratios of doe\<close>

text \<open>
  Claim C1. The claim holds for ratios that are left out: \<open>doe\<close> then uses one
  ratio 1 for each plot size. It fails for the ratios it is about: when \<open>ratios\<close>
  has one entry less than \<open>plot_sizes\<close>, the call
  \<^verbatim>\<open>np.concatenate(np.array([1]), ratios)\<close> gives \<open>ratios\<close> as the axis and raises
  \<^verbatim>\<open>TypeError\<close>, whatever the other arguments are, before the prestate is computed.
\<close>

theorem doe_ratios_one_shorter:
  "initialize_ratios plot_sizes None = Inr (replicate (length plot_sizes) 1) \<and>
   (length ratios + 1 = length plot_sizes \<longrightarrow>
      doe fuel imp model plot_sizes factors n_tries max_it it_callback optim default_coords
        (Some ratios) g = Some (Inl TypeError))"
  by (simp add: doe_def doe_run_def initialize_ratios_def np_concatenate_def Let_def)

theorem doe_ratios_one_shorter_witness:
  "length [1::real] + 1 = length [2, 2::nat] \<and>
   doe 5 list_collaborators [[1]] [2, 2] [(0, 1)] 2 10 None squares_criterion None
     (Some [1]) [] = Some (Inl TypeError)"
  using doe_ratios_one_shorter
    [of "[2, 2]" "[1]" 5 list_collaborators "[[1]]" "[(0, 1)]" 2 10 None squares_criterion
        None "[]"]
  by simp

text \<open>
  Claim C10. When \<open>ratios\<close> is given and its length is neither the length of
  \<open>plot_sizes\<close> nor one less, or its length is that of \<open>plot_sizes\<close> and its first
  entry is not 1, \<open>doe\<close> fails with an \<^verbatim>\<open>AssertionError\<close>. It does so whatever
  the criterion is (also one whose \<open>preinit\<close> would raise) and whatever number of
  iterations its loop is allowed: before the prestate is computed and before any
  restart.
\<close>

theorem doe_rejects_malformed_ratios:
  assumes "(length ratios + 1 \<noteq> length plot_sizes \<and> length ratios \<noteq> length plot_sizes) \<or>
           (length ratios = length plot_sizes \<and> ratios \<noteq> [] \<and> hd ratios \<noteq> 1)"
  shows "\<exists>msg. doe fuel imp model plot_sizes factors n_tries max_it it_callback optim
                  default_coords (Some ratios) g = Some (Inl (AssertionError msg))"
  using assms
  by (cases ratios)
     (auto simp add: doe_def doe_run_def initialize_ratios_def np_index_def Let_def)

theorem doe_rejects_malformed_ratios_witness:
  "length [1, 2, 3::real] + 1 \<noteq> length [2, 2::nat] \<and>
   length [1, 2, 3::real] \<noteq> length [2, 2::nat] \<and>
   (\<exists>msg. doe 0 list_collaborators [[1]] [2, 2] [(0, 1)] 2 10 None squares_criterion None
            (Some [1, 2, 3]) [] = Some (Inl (AssertionError msg))) \<and>
   length [2, 3::real] = length [2, 2::nat] \<and> hd [2, 3::real] \<noteq> 1 \<and>
   (\<exists>msg. doe 0 list_collaborators [[1]] [2, 2] [(0, 1)] 2 10 None squares_criterion None
            (Some [2, 3]) [] = Some (Inl (AssertionError msg)))"
  using doe_rejects_malformed_ratios
    [of "[1, 2, 3]" "[2, 2]" 0 list_collaborators "[[1]]" "[(0, 1)]" 2 10 None
        squares_criterion None "[]"]
    doe_rejects_malformed_ratios
    [of "[2, 3]" "[2, 2]" 0 list_collaborators "[[1]]" "[(0, 1)]" 2 10 None
        squares_criterion None "[]"]
  by simp


subsection \<open>The loop of doe\<close>

lemma float_gt_trans: "float_gt a b \<Longrightarrow> float_gt b c \<Longrightarrow> float_gt a c"
  by (cases a; cases b; cases c) auto

lemma float_gt_irrefl: "\<not> float_gt a a"
  by (cases a) auto

lemma float_not_gt_cases: "\<not> float_gt a b \<Longrightarrow> float_gt c b \<Longrightarrow> a = NaN \<or> float_gt c a"
  by (cases a; cases b; cases c) auto

lemma float_gt_NegInf: "float_gt a b \<Longrightarrow> float_gt a NegInf"
  by (cases a; cases b) auto

lemma doe_loop_invariant:
  assumes "doe_loop fuel attempt n_tries s = Some (Inr s')"
    and "P s"
    and "\<And>t t'. P t \<Longrightarrow> tries_done t < n_tries \<Longrightarrow> attempt t = Inr t' \<Longrightarrow> P t'"
  shows "P s' \<and> \<not> tries_done s' < n_tries"
  using assms(1,2)
proof (induction fuel arbitrary: s)
  case 0
  then show ?case by (auto split: if_splits)
next
  case (Suc fuel)
  show ?case
  proof (cases "tries_done s < n_tries")
    case True
    with Suc.prems(1) obtain t where t: "attempt s = Inr t"
      and l: "doe_loop fuel attempt n_tries t = Some (Inr s')"
      by (auto split: sum.splits)
    from assms(3) [OF Suc.prems(2) True t] have "P t" .
    from Suc.IH [OF l this] show ?thesis .
  next
    case False
    with Suc.prems show ?thesis by auto
  qed
qed

lemma doe_loop_more_fuel:
  "doe_loop fuel attempt n_tries s = Some r \<Longrightarrow> doe_loop (fuel + k) attempt n_tries s = Some r"
proof (induction fuel arbitrary: s)
  case 0
  then show ?case by (cases k) (auto split: if_splits)
next
  case (Suc fuel)
  then show ?case by (auto split: if_splits sum.splits)
qed

text \<open>
  The loop returns \<open>t\<close> exactly when a chain of attempts, each begun with fewer
  than \<open>n_tries\<close> completed restarts, leads to \<open>t\<close>, no longer than the loop is
  allowed, and \<open>t\<close> has its \<open>n_tries\<close> restarts: the loop goes on while restarts are
  missing and stops at the first state that has them.
\<close>

lemma doe_loop_iff:
  "doe_loop fuel attempt n_tries s = Some (Inr t) \<longleftrightarrow>
   (\<exists>k\<le>fuel. ((\<lambda>a b. tries_done a < n_tries \<and> attempt a = Inr b) ^^ k) s t \<and>
              \<not> tries_done t < n_tries)"
proof (induction fuel arbitrary: s)
  case 0
  show ?case by auto
next
  case (Suc fuel)
  let ?R = "\<lambda>a b. tries_done a < n_tries \<and> attempt a = Inr b"
  show ?case
  proof (cases "tries_done s < n_tries")
    case False
    have zero: "(?R ^^ k) s t \<Longrightarrow> k = 0" for k
    proof (cases k)
      case 0
      then show ?thesis by simp
    next
      case (Suc j)
      assume "(?R ^^ k) s t"
      then have "(?R ^^ Suc j) s t" unfolding Suc .
      then have "\<exists>y. ?R s y \<and> (?R ^^ j) y t" by (rule relpowp_Suc_D2)
      with False show ?thesis by blast
    qed
    have only: "s = t" if "(?R ^^ k) s t" for k
    proof -
      from zero [OF that] have "k = 0" .
      with that show ?thesis by simp
    qed
    have "(\<exists>k\<le>Suc fuel. (?R ^^ k) s t \<and> \<not> tries_done t < n_tries) \<longleftrightarrow> s = t"
    proof
      assume "\<exists>k\<le>Suc fuel. (?R ^^ k) s t \<and> \<not> tries_done t < n_tries"
      then show "s = t" using only by blast
    next
      assume "s = t"
      with False have "(?R ^^ 0) s t \<and> \<not> tries_done t < n_tries" by simp
      then show "\<exists>k\<le>Suc fuel. (?R ^^ k) s t \<and> \<not> tries_done t < n_tries" by blast
    qed
    with False show ?thesis by auto
  next
    case True
    show ?thesis
    proof (cases "attempt s")
      case (Inl e)
      have "\<not> (?R ^^ k) s t \<or> tries_done t < n_tries" for k
      proof (cases k)
        case 0
        with True show ?thesis by auto
      next
        case (Suc j)
        have "\<not> (?R ^^ Suc j) s t"
        proof
          assume "(?R ^^ Suc j) s t"
          then have "\<exists>y. ?R s y \<and> (?R ^^ j) y t" by (rule relpowp_Suc_D2)
          with Inl show False by auto
        qed
        then show ?thesis unfolding Suc by simp
      qed
      then have "\<not> (\<exists>k\<le>Suc fuel. (?R ^^ k) s t \<and> \<not> tries_done t < n_tries)" by blast
      with True Inl show ?thesis by simp
    next
      case (Inr s')
      have "(\<exists>k\<le>Suc fuel. (?R ^^ k) s t \<and> \<not> tries_done t < n_tries) \<longleftrightarrow>
            (\<exists>k\<le>fuel. (?R ^^ k) s' t \<and> \<not> tries_done t < n_tries)"
      proof
        assume "\<exists>k\<le>Suc fuel. (?R ^^ k) s t \<and> \<not> tries_done t < n_tries"
        then obtain k where k: "k \<le> Suc fuel" "(?R ^^ k) s t" "\<not> tries_done t < n_tries"
          by blast
        show "\<exists>k\<le>fuel. (?R ^^ k) s' t \<and> \<not> tries_done t < n_tries"
        proof (cases k)
          case 0
          with k True show ?thesis by auto
        next
          case (Suc j)
          from k(2) have "(?R ^^ Suc j) s t" unfolding Suc .
          then have "\<exists>y. ?R s y \<and> (?R ^^ j) y t" by (rule relpowp_Suc_D2)
          then obtain y where "?R s y" "(?R ^^ j) y t" by blast
          with Inr have "(?R ^^ j) s' t" by simp
          with k(1,3) Suc show ?thesis by (intro exI [of _ j]) simp
        qed
      next
        assume "\<exists>k\<le>fuel. (?R ^^ k) s' t \<and> \<not> tries_done t < n_tries"
        then obtain j where j: "j \<le> fuel" "(?R ^^ j) s' t" "\<not> tries_done t < n_tries"
          by blast
        from True Inr have "?R s s'" by simp
        from relpowp_Suc_I2 [of ?R, OF this j(2)] have "(?R ^^ Suc j) s t" .
        with j(1,3) show "\<exists>k\<le>Suc fuel. (?R ^^ k) s t \<and> \<not> tries_done t < n_tries"
          by (intro exI [of _ "Suc j"]) simp
      qed
      with True Inr Suc.IH [of s'] show ?thesis by simp
    qed
  qed
qed

lemma doe_attempt_failed:
  assumes "initialize_single imp (rng s) plot_sizes factors (template_Y s) default_coords = (Yo, Y', g')"
    and "optimize (inv_solve imp) (encode_design imp Yo factors) model_enc plot_sizes factors optim prestate max_it None default_coords = Inl e"
  shows "doe_attempt imp model_enc plot_sizes factors max_it it_callback optim prestate default_coords s =
     (if isinstance_LinAlgError e then Inr (s\<lparr>template_Y := Y', rng := g'\<rparr>) else Inl e)"
  using assms by (simp add: doe_attempt_def Let_def)

lemma record_restart_fields:
  "tries_done (record_restart s Yo m) = tries_done s + 1"
  "metrics (record_restart s Yo m) = (metrics s)[tries_done s := m]"
  "history (record_restart s Yo m) = history s @ [(Yo, m)]"
  "best_metric (record_restart s Yo m) = (if float_gt m (best_metric s) then m else best_metric s)"
  "best_Y (record_restart s Yo m) = (if float_gt m (best_metric s) then Some Yo else best_Y s)"
  "template_Y (record_restart s Yo m) = template_Y s"
  "rng (record_restart s Yo m) = rng s"
  by (simp_all add: record_restart_def Let_def)

lemma doe_attempt_completed:
  assumes "initialize_single imp (rng s) plot_sizes factors (template_Y s) default_coords = (Yo, Y', g')"
    and "optimize (inv_solve imp) (encode_design imp Yo factors) model_enc plot_sizes factors optim prestate max_it None default_coords = Inr (Yopt, m)"
    and "it_callback (tries_done s + 1) g' = (r, g'')"
  shows "doe_attempt imp model_enc plot_sizes factors max_it it_callback optim prestate default_coords s =
     (case r of
        Some e \<Rightarrow> if isinstance_LinAlgError e
                  then Inr ((record_restart (s\<lparr>template_Y := Y', rng := g'\<rparr>) Yopt m)\<lparr>rng := g''\<rparr>)
                  else Inl e
      | None \<Rightarrow> Inr ((record_restart (s\<lparr>template_Y := Y', rng := g'\<rparr>) Yopt m)\<lparr>rng := g''\<rparr>))"
  using assms by (simp add: doe_attempt_def Let_def record_restart_fields split: option.splits)

lemma doe_attempt_cases:
  assumes "doe_attempt imp model_enc plot_sizes factors max_it it_callback optim prestate default_coords s = Inr s'"
  shows "(\<exists>Y' g'. s' = s\<lparr>template_Y := Y', rng := g'\<rparr>) \<or>
         (\<exists>Y' g' g'' Yopt m.
            s' = (record_restart (s\<lparr>template_Y := Y', rng := g'\<rparr>) Yopt m)\<lparr>rng := g''\<rparr>)"
proof -
  obtain Yo Y' g' where i: "initialize_single imp (rng s) plot_sizes factors (template_Y s) default_coords = (Yo, Y', g')"
    by (cases "initialize_single imp (rng s) plot_sizes factors (template_Y s) default_coords") auto
  show ?thesis
  proof (cases "optimize (inv_solve imp) (encode_design imp Yo factors) model_enc plot_sizes factors optim prestate max_it None default_coords")
    case (Inl e)
    from doe_attempt_failed [OF i Inl] assms have "s' = s\<lparr>template_Y := Y', rng := g'\<rparr>"
      by (auto split: if_splits)
    then show ?thesis by blast
  next
    case (Inr res)
    obtain Yopt m where res: "res = (Yopt, m)" by (cases res)
    obtain r g'' where c: "it_callback (tries_done s + 1) g' = (r, g'')"
      by (cases "it_callback (tries_done s + 1) g'")
    from doe_attempt_completed [where it_callback = it_callback, OF i Inr [unfolded res] c] assms
    have "s' = (record_restart (s\<lparr>template_Y := Y', rng := g'\<rparr>) Yopt m)\<lparr>rng := g''\<rparr>"
      by (auto split: if_splits option.splits)
    then show ?thesis by blast
  qed
qed

lemma book_inv_record:
  "book_inv n_tries s \<Longrightarrow> tries_done s < n_tries \<Longrightarrow> book_inv n_tries (record_restart s Yo m)"
  by (simp add: book_inv_def record_restart_fields take_Suc_conv_app_nth)

lemma best_inv_record:
  assumes "best_inv s"
  shows "best_inv (record_restart s Yo m)"
proof (cases "float_gt m (best_metric s)")
  case True
  have below: "\<forall>j<length (history s). \<not> float_gt (snd (history s ! j)) (best_metric s)"
    using assms by (auto simp: best_inv_def list_all_length split: option.splits)
  have 1: "\<forall>j<length (history s). \<not> float_gt (snd (history s ! j)) m"
    using below True float_gt_trans by blast
  have 2: "\<forall>j<length (history s). snd (history s ! j) = NaN \<or> float_gt m (snd (history s ! j))"
    using below True float_not_gt_cases by blast
  show ?thesis
    unfolding best_inv_def using True 1 2 float_gt_NegInf [OF True]
    by (auto simp: record_restart_fields nth_append float_gt_irrefl less_Suc_eq
             intro!: exI [of _ "length (history s)"])
next
  case False
  show ?thesis
  proof (cases "best_Y s")
    case None
    with assms False show ?thesis
      by (auto simp: best_inv_def record_restart_fields)
  next
    case (Some B)
    with assms obtain k where k: "k < length (history s)" "history s ! k = (B, best_metric s)"
      "float_gt (best_metric s) NegInf"
      "\<forall>j<length (history s). \<not> float_gt (snd (history s ! j)) (best_metric s)"
      "\<forall>j<k. snd (history s ! j) = NaN \<or> float_gt (best_metric s) (snd (history s ! j))"
      by (auto simp: best_inv_def)
    show ?thesis
      unfolding best_inv_def using False Some k
      by (auto simp: record_restart_fields nth_append less_Suc_eq intro!: exI [of _ k])
  qed
qed

lemma book_inv_attempt:
  assumes "doe_attempt imp model_enc plot_sizes factors max_it it_callback optim prestate default_coords s = Inr s'"
    and "book_inv n_tries s" and "tries_done s < n_tries"
  shows "book_inv n_tries s'"
proof -
  have a: "book_inv n_tries (s\<lparr>template_Y := Y', rng := g'\<rparr>)" for Y' g'
    using assms(2) by (simp add: book_inv_def)
  have b: "book_inv n_tries (u\<lparr>rng := g''\<rparr>)" if "book_inv n_tries u" for u :: "'a doe_state" and g''
    using that by (simp add: book_inv_def)
  from doe_attempt_cases [OF assms(1)] show ?thesis
  proof (elim disjE exE)
    fix Y' g' assume "s' = s\<lparr>template_Y := Y', rng := g'\<rparr>"
    then show ?thesis using a by simp
  next
    fix Y' g' g'' Yopt m
    assume s': "s' = (record_restart (s\<lparr>template_Y := Y', rng := g'\<rparr>) Yopt m)\<lparr>rng := g''\<rparr>"
    have "book_inv n_tries (record_restart (s\<lparr>template_Y := Y', rng := g'\<rparr>) Yopt m)"
      using a assms(3) by (intro book_inv_record) simp_all
    then show ?thesis unfolding s' by (rule b)
  qed
qed

lemma best_inv_attempt:
  assumes "doe_attempt imp model_enc plot_sizes factors max_it it_callback optim prestate default_coords s = Inr s'"
    and "best_inv s"
  shows "best_inv s'"
proof -
  have a: "best_inv (s\<lparr>template_Y := Y', rng := g'\<rparr>)" for Y' g'
    using assms(2) by (simp add: best_inv_def split: option.splits)
  have b: "best_inv (u\<lparr>rng := g''\<rparr>)" if "best_inv u" for u :: "'a doe_state" and g''
    using that by (simp add: best_inv_def split: option.splits)
  from doe_attempt_cases [OF assms(1)] show ?thesis
  proof (elim disjE exE)
    fix Y' g' assume "s' = s\<lparr>template_Y := Y', rng := g'\<rparr>"
    then show ?thesis using a by simp
  next
    fix Y' g' g'' Yopt m
    assume s': "s' = (record_restart (s\<lparr>template_Y := Y', rng := g'\<rparr>) Yopt m)\<lparr>rng := g''\<rparr>"
    have "best_inv (record_restart (s\<lparr>template_Y := Y', rng := g'\<rparr>) Yopt m)"
      using a by (intro best_inv_record)
    then show ?thesis unfolding s' by (rule b)
  qed
qed

lemma doe_run_invariants:
  assumes "doe_run fuel imp model plot_sizes factors n_tries max_it it_callback optim default_coords ratios g = Some (Inr s)"
  shows "book_inv n_tries s \<and> best_inv s \<and> tries_done s = n_tries"
proof -
  let ?s0 = "\<lparr>tries_done = 0, metrics = replicate n_tries (Finite 0), best_metric = NegInf,
               best_Y = None, template_Y = np_zeros2 (prod_list plot_sizes) (length factors), rng = g, history = []\<rparr>"
  from assms obtain ratios' prestate where
    loop: "doe_loop fuel (doe_attempt imp (encode_model imp model factors) plot_sizes factors max_it
             (case it_callback of None \<Rightarrow> (\<lambda>x w. (None, w)) | Some f \<Rightarrow> f) optim prestate default_coords)
             n_tries ?s0 = Some (Inr s)"
    by (auto simp: doe_run_def Let_def split: sum.splits)
  have init: "book_inv n_tries ?s0 \<and> best_inv ?s0"
    by (simp add: book_inv_def best_inv_def)
  have step: "book_inv n_tries t' \<and> best_inv t'"
    if "book_inv n_tries t \<and> best_inv t" and "tries_done t < n_tries"
      and "doe_attempt imp (encode_model imp model factors) plot_sizes factors max_it
             (case it_callback of None \<Rightarrow> (\<lambda>x w. (None, w)) | Some f \<Rightarrow> f) optim prestate default_coords t = Inr t'"
    for t t'
    using that book_inv_attempt [OF that(3)] best_inv_attempt [OF that(3)] by blast
  have "(book_inv n_tries s \<and> best_inv s) \<and> \<not> tries_done s < n_tries"
    by (rule doe_loop_invariant [OF loop, where P = "\<lambda>t. book_inv n_tries t \<and> best_inv t", OF init step])
  then show ?thesis by (auto simp: book_inv_def)
qed

text \<open>
  Claim C6. An attempt whose \<open>optimize\<close> raises \<^verbatim>\<open>LinAlgError\<close> changes nothing
  but the array \<^verbatim>\<open>Y\<close> and the world as the initializer left them: the count of
  restarts, the metrics and the best design are as they were, and the callback has
  not acted. An attempt whose \<open>optimize\<close> returns stores its metric at the index of
  the restart, replaces the best design when the metric is strictly greater than
  the best so far, adds one to the count and applies the callback once, to the new
  count and the world the initializer left; the attempt ends with the exception of
  the callback if it raises one that is no \<^verbatim>\<open>LinAlgError\<close>. Once the ratios
  and the prestate are there, the loop of \<open>doe\<close> returns a state exactly when a
  chain of such attempts, each begun with restarts missing and no more of them than
  the loop is allowed, leads from the initial state to it and it has its
  \<open>n_tries\<close> restarts: the loop goes on while restarts are missing and stops with
  the first state that has them. \<open>doe\<close> then has exactly \<open>n_tries\<close> completed
  restarts, each with its metric in \<open>metrics\<close>.
\<close>

theorem doe_restarts:
  "(initialize_single imp (rng s) plot_sizes factors (template_Y s) default_coords = (Yo, Y', g') \<and>
    optimize (inv_solve imp) (encode_design imp Yo factors) model_enc plot_sizes factors optim
      prestate max_it None default_coords = Inl e \<and> isinstance_LinAlgError e \<longrightarrow>
    doe_attempt imp model_enc plot_sizes factors max_it it_callback optim prestate
      default_coords s = Inr (s\<lparr>template_Y := Y', rng := g'\<rparr>)) \<and>
   (initialize_single imp (rng s) plot_sizes factors (template_Y s) default_coords = (Yo, Y', g') \<and>
    optimize (inv_solve imp) (encode_design imp Yo factors) model_enc plot_sizes factors optim
      prestate max_it None default_coords = Inr (Yopt, m) \<and>
    it_callback (tries_done s + 1) g' = (r, g'') \<longrightarrow>
    doe_attempt imp model_enc plot_sizes factors max_it it_callback optim prestate
      default_coords s =
      (if (case r of None \<Rightarrow> True | Some e' \<Rightarrow> isinstance_LinAlgError e')
       then Inr (s\<lparr>tries_done := tries_done s + 1,
                   metrics := (metrics s)[tries_done s := m],
                   best_metric := (if float_gt m (best_metric s) then m else best_metric s),
                   best_Y := (if float_gt m (best_metric s) then Some Yopt else best_Y s),
                   template_Y := Y', rng := g'',
                   history := history s @ [(Yopt, m)]\<rparr>)
       else Inl (the r))) \<and>
   (initialize_ratios plot_sizes ratios = Inr ratios' \<and>
    preinit optim plot_sizes (model, encode_model imp model factors) factors ratios' =
      Inr prestate \<longrightarrow>
    (doe_run fuel imp model plot_sizes factors n_tries max_it cb optim default_coords ratios g =
       Some (Inr t) \<longleftrightarrow>
     (\<exists>k\<le>fuel.
        ((\<lambda>a b. tries_done a < n_tries \<and>
                doe_attempt imp (encode_model imp model factors) plot_sizes factors max_it
                  (case cb of None \<Rightarrow> (\<lambda>x w. (None, w)) | Some f \<Rightarrow> f) optim prestate
                  default_coords a = Inr b) ^^ k)
          \<lparr>tries_done = 0, metrics = replicate n_tries (Finite 0), best_metric = NegInf,
           best_Y = None, template_Y = np_zeros2 (prod_list plot_sizes) (length factors),
           rng = g, history = []\<rparr> t \<and>
        \<not> tries_done t < n_tries))) \<and>
   (doe_run fuel imp model plot_sizes factors n_tries max_it cb optim default_coords ratios g =
      Some (Inr u) \<longrightarrow>
    tries_done u = n_tries \<and> length (history u) = n_tries \<and>
    metrics u = map snd (history u))"
proof -
  have 1: "initialize_single imp (rng s) plot_sizes factors (template_Y s) default_coords = (Yo, Y', g') \<and>
    optimize (inv_solve imp) (encode_design imp Yo factors) model_enc plot_sizes factors optim
      prestate max_it None default_coords = Inl e \<and> isinstance_LinAlgError e \<longrightarrow>
    doe_attempt imp model_enc plot_sizes factors max_it it_callback optim prestate
      default_coords s = Inr (s\<lparr>template_Y := Y', rng := g'\<rparr>)"
    using doe_attempt_failed [of imp s plot_sizes factors default_coords Yo Y' g' model_enc
        optim prestate max_it e it_callback]
    by simp
  have 2: "initialize_single imp (rng s) plot_sizes factors (template_Y s) default_coords = (Yo, Y', g') \<and>
    optimize (inv_solve imp) (encode_design imp Yo factors) model_enc plot_sizes factors optim
      prestate max_it None default_coords = Inr (Yopt, m) \<and>
    it_callback (tries_done s + 1) g' = (r, g'') \<longrightarrow>
    doe_attempt imp model_enc plot_sizes factors max_it it_callback optim prestate
      default_coords s =
      (if (case r of None \<Rightarrow> True | Some e' \<Rightarrow> isinstance_LinAlgError e')
       then Inr (s\<lparr>tries_done := tries_done s + 1,
                   metrics := (metrics s)[tries_done s := m],
                   best_metric := (if float_gt m (best_metric s) then m else best_metric s),
                   best_Y := (if float_gt m (best_metric s) then Some Yopt else best_Y s),
                   template_Y := Y', rng := g'',
                   history := history s @ [(Yopt, m)]\<rparr>)
       else Inl (the r))"
  proof (intro impI, elim conjE)
    assume a: "initialize_single imp (rng s) plot_sizes factors (template_Y s) default_coords = (Yo, Y', g')"
      "optimize (inv_solve imp) (encode_design imp Yo factors) model_enc plot_sizes factors optim
        prestate max_it None default_coords = Inr (Yopt, m)"
      "it_callback (tries_done s + 1) g' = (r, g'')"
    have eq: "(record_restart (s\<lparr>template_Y := Y', rng := g'\<rparr>) Yopt m)\<lparr>rng := g''\<rparr> =
          s\<lparr>tries_done := tries_done s + 1,
             metrics := (metrics s)[tries_done s := m],
             best_metric := (if float_gt m (best_metric s) then m else best_metric s),
             best_Y := (if float_gt m (best_metric s) then Some Yopt else best_Y s),
             template_Y := Y', rng := g'',
             history := history s @ [(Yopt, m)]\<rparr>"
      by (simp add: record_restart_def Let_def)
    show "doe_attempt imp model_enc plot_sizes factors max_it it_callback optim prestate
      default_coords s =
      (if (case r of None \<Rightarrow> True | Some e' \<Rightarrow> isinstance_LinAlgError e')
       then Inr (s\<lparr>tries_done := tries_done s + 1,
                   metrics := (metrics s)[tries_done s := m],
                   best_metric := (if float_gt m (best_metric s) then m else best_metric s),
                   best_Y := (if float_gt m (best_metric s) then Some Yopt else best_Y s),
                   template_Y := Y', rng := g'',
                   history := history s @ [(Yopt, m)]\<rparr>)
       else Inl (the r))"
      unfolding doe_attempt_completed [where it_callback = it_callback, OF a] eq
      by (cases r) simp_all
  qed
  have 3: "initialize_ratios plot_sizes ratios = Inr ratios' \<and>
    preinit optim plot_sizes (model, encode_model imp model factors) factors ratios' =
      Inr prestate \<longrightarrow>
    (doe_run fuel imp model plot_sizes factors n_tries max_it cb optim default_coords ratios g =
       Some (Inr t) \<longleftrightarrow>
     (\<exists>k\<le>fuel.
        ((\<lambda>a b. tries_done a < n_tries \<and>
                doe_attempt imp (encode_model imp model factors) plot_sizes factors max_it
                  (case cb of None \<Rightarrow> (\<lambda>x w. (None, w)) | Some f \<Rightarrow> f) optim prestate
                  default_coords a = Inr b) ^^ k)
          \<lparr>tries_done = 0, metrics = replicate n_tries (Finite 0), best_metric = NegInf,
           best_Y = None, template_Y = np_zeros2 (prod_list plot_sizes) (length factors),
           rng = g, history = []\<rparr> t \<and>
        \<not> tries_done t < n_tries))"
  proof
    assume "initialize_ratios plot_sizes ratios = Inr ratios' \<and>
      preinit optim plot_sizes (model, encode_model imp model factors) factors ratios' =
        Inr prestate"
    then have "doe_run fuel imp model plot_sizes factors n_tries max_it cb optim default_coords
        ratios g =
      doe_loop fuel
        (doe_attempt imp (encode_model imp model factors) plot_sizes factors max_it
           (case cb of None \<Rightarrow> (\<lambda>x w. (None, w)) | Some f \<Rightarrow> f) optim prestate
           default_coords) n_tries
        \<lparr>tries_done = 0, metrics = replicate n_tries (Finite 0), best_metric = NegInf,
         best_Y = None, template_Y = np_zeros2 (prod_list plot_sizes) (length factors),
         rng = g, history = []\<rparr>"
      by (simp add: doe_run_def Let_def)
    then show "doe_run fuel imp model plot_sizes factors n_tries max_it cb optim default_coords
        ratios g = Some (Inr t) \<longleftrightarrow>
     (\<exists>k\<le>fuel.
        ((\<lambda>a b. tries_done a < n_tries \<and>
                doe_attempt imp (encode_model imp model factors) plot_sizes factors max_it
                  (case cb of None \<Rightarrow> (\<lambda>x w. (None, w)) | Some f \<Rightarrow> f) optim prestate
                  default_coords a = Inr b) ^^ k)
          \<lparr>tries_done = 0, metrics = replicate n_tries (Finite 0), best_metric = NegInf,
           best_Y = None, template_Y = np_zeros2 (prod_list plot_sizes) (length factors),
           rng = g, history = []\<rparr> t \<and>
        \<not> tries_done t < n_tries)"
      by (simp only: doe_loop_iff)
  qed
  have 4: "doe_run fuel imp model plot_sizes factors n_tries max_it cb optim default_coords ratios g =
      Some (Inr u) \<longrightarrow> tries_done u = n_tries \<and> length (history u) = n_tries \<and>
    metrics u = map snd (history u)"
  proof
    assume that: "doe_run fuel imp model plot_sizes factors n_tries max_it cb optim default_coords ratios g =
      Some (Inr u)"
    from doe_run_invariants [OF that] have b: "book_inv n_tries u" and d: "tries_done u = n_tries"
      by blast+
    from b have "length (metrics u) = n_tries" "length (history u) = tries_done u"
      "take (tries_done u) (metrics u) = map snd (history u)"
      unfolding book_inv_def by blast+
    then show "tries_done u = n_tries \<and> length (history u) = n_tries \<and>
      metrics u = map snd (history u)" unfolding d by simp
  qed
  show ?thesis
    by (rule conjI [OF 1 conjI [OF 2 conjI [OF 3 4]]])
qed

theorem doe_restarts_witness:
  "optimize (inv_solve logging_collaborators) [[0], [0]] [[1]] [2] [(0, 1)] singular_criterion ()
     10 None None = Inl LinAlgError \<and>
   isinstance_LinAlgError LinAlgError \<and>
   doe_attempt logging_collaborators [[1]] [2] [(0, 1)] 10 logging_callback
     singular_criterion () None
     \<lparr>tries_done = 0, metrics = [Finite 0, Finite 0], best_metric = NegInf, best_Y = None,
      template_Y = [[0], [0]], rng = ([[[0], [0]], [[1], [0]], [[0], [1]]], []),
      history = []\<rparr> =
     Inr \<lparr>tries_done = 0, metrics = [Finite 0, Finite 0], best_metric = NegInf, best_Y = None,
          template_Y = [[0], [0]], rng = ([[[1], [0]], [[0], [1]]], []), history = []\<rparr> \<and>
   optimize (inv_solve logging_collaborators) [[1], [0]] [[1]] [2] [(0, 1)] singular_criterion ()
     10 None None = Inr ([[1], [-1]], Finite 2) \<and>
   logging_callback 1 ([[[0], [1]]], []) = (None, ([[[0], [1]]], [1])) \<and>
   doe_attempt logging_collaborators [[1]] [2] [(0, 1)] 10 logging_callback
     singular_criterion () None
     \<lparr>tries_done = 0, metrics = [Finite 0, Finite 0], best_metric = NegInf, best_Y = None,
      template_Y = [[0], [0]], rng = ([[[1], [0]], [[0], [1]]], []), history = []\<rparr> =
     Inr \<lparr>tries_done = 1, metrics = [Finite 2, Finite 0], best_metric = Finite 2,
          best_Y = Some [[1], [-1]], template_Y = [[1], [0]], rng = ([[[0], [1]]], [1]),
          history = [([[1], [-1]], Finite 2)]\<rparr> \<and>
   (\<exists>k\<le>3.
      ((\<lambda>a b. tries_done a < 2 \<and>
              doe_attempt logging_collaborators [[1]] [2] [(0, 1)] 10 logging_callback
                singular_criterion () None a = Inr b) ^^ k)
        \<lparr>tries_done = 0, metrics = [Finite 0, Finite 0], best_metric = NegInf, best_Y = None,
         template_Y = [[0], [0]], rng = ([[[0], [0]], [[1], [0]], [[0], [1]]], []),
         history = []\<rparr>
        \<lparr>tries_done = 2, metrics = [Finite 2, Finite 2], best_metric = Finite 2,
         best_Y = Some [[1], [-1]], template_Y = [[0], [1]], rng = ([], [1, 2]),
         history = [([[1], [-1]], Finite 2), ([[-1], [1]], Finite 2)]\<rparr>) \<and>
   doe_run 3 logging_collaborators [[1]] [2] [(0, 1)] 2 10 (Some logging_callback)
     singular_criterion None None ([[[0], [0]], [[1], [0]], [[0], [1]]], []) =
     Some (Inr \<lparr>tries_done = 2, metrics = [Finite 2, Finite 2], best_metric = Finite 2,
                best_Y = Some [[1], [-1]], template_Y = [[0], [1]], rng = ([], [1, 2]),
                history = [([[1], [-1]], Finite 2), ([[-1], [1]], Finite 2)]\<rparr>) \<and>
   doe_run 2 logging_collaborators [[1]] [2] [(0, 1)] 2 10 (Some logging_callback)
     singular_criterion None None ([[[0], [0]], [[1], [0]], [[0], [1]]], []) = None"
proof -
  let ?s0 = "\<lparr>tries_done = 0, metrics = [Finite 0, Finite 0], best_metric = NegInf, best_Y = None,
      template_Y = [[0], [0]], rng = ([[[0], [0]], [[1], [0]], [[0], [1]]], []),
      history = []\<rparr> :: (matrix list \<times> nat list) doe_state"
  let ?s1 = "\<lparr>tries_done = 0, metrics = [Finite 0, Finite 0], best_metric = NegInf, best_Y = None,
      template_Y = [[0], [0]], rng = ([[[1], [0]], [[0], [1]]], []), history = []\<rparr>
      :: (matrix list \<times> nat list) doe_state"
  let ?s2 = "\<lparr>tries_done = 1, metrics = [Finite 2, Finite 0], best_metric = Finite 2,
          best_Y = Some [[1], [-1]], template_Y = [[1], [0]], rng = ([[[0], [1]]], [1]),
          history = [([[1], [-1]], Finite 2)]\<rparr> :: (matrix list \<times> nat list) doe_state"
  let ?t = "\<lparr>tries_done = 2, metrics = [Finite 2, Finite 2], best_metric = Finite 2,
         best_Y = Some [[1], [-1]], template_Y = [[0], [1]], rng = ([], [1, 2]),
         history = [([[1], [-1]], Finite 2), ([[-1], [1]], Finite 2)]\<rparr>
         :: (matrix list \<times> nat list) doe_state"
  have o0: "optimize (inv_solve logging_collaborators) [[0], [0]] [[1]] [2] [(0, 1)]
     singular_criterion () 10 None None = Inl LinAlgError"
    by code_simp
  have o1: "optimize (inv_solve logging_collaborators) [[1], [0]] [[1]] [2] [(0, 1)]
     singular_criterion () 10 None None = Inr ([[1], [-1]], Finite 2)"
    by code_simp
  have l: "isinstance_LinAlgError LinAlgError" by simp
  have cb: "logging_callback 1 ([[[0], [1]]], []) = (None, ([[[0], [1]]], [1]))"
    by (simp add: logging_callback_def)
  have e: "encode_design logging_collaborators Y fs = Y" for Y fs
    by (simp add: logging_collaborators_def)
  have h0: "initialize_single logging_collaborators (rng ?s0) [2] [(0, 1)] (template_Y ?s0) None =
      ([[0], [0]], [[0], [0]], ([[[1], [0]], [[0], [1]]], [])) \<and>
    optimize (inv_solve logging_collaborators)
      (encode_design logging_collaborators [[0], [0]] [(0, 1)])
      [[1]] [2] [(0, 1)] singular_criterion () 10 None None = Inl LinAlgError \<and>
    isinstance_LinAlgError LinAlgError"
    using o0 by (simp add: e) (simp add: logging_collaborators_def)
  have h1: "initialize_single logging_collaborators (rng ?s1) [2] [(0, 1)] (template_Y ?s1) None =
      ([[1], [0]], [[1], [0]], ([[[0], [1]]], [])) \<and>
    optimize (inv_solve logging_collaborators)
      (encode_design logging_collaborators [[1], [0]] [(0, 1)])
      [[1]] [2] [(0, 1)] singular_criterion () 10 None None = Inr ([[1], [-1]], Finite 2) \<and>
    logging_callback (tries_done ?s1 + 1) ([[[0], [1]]], []) = (None, ([[[0], [1]]], [1]))"
    using o1 cb by (simp add: e) (simp add: logging_collaborators_def)
  from doe_restarts [where imp = logging_collaborators and s = ?s0 and plot_sizes = "[2]"
      and factors = "[(0, 1)]" and default_coords = None and model_enc = "[[1]]"
      and optim = singular_criterion and prestate = "()" and max_it = 10
      and it_callback = logging_callback, THEN conjunct1, THEN mp, OF h0]
  have c0: "doe_attempt logging_collaborators [[1]] [2] [(0, 1)] 10 logging_callback
      singular_criterion () None ?s0 = Inr ?s1"
    by simp
  from doe_restarts [where imp = logging_collaborators and s = ?s1 and plot_sizes = "[2]"
      and factors = "[(0, 1)]" and default_coords = None and model_enc = "[[1]]"
      and optim = singular_criterion and prestate = "()" and max_it = 10
      and it_callback = logging_callback, THEN conjunct2, THEN conjunct1, THEN mp, OF h1]
  have c1: "doe_attempt logging_collaborators [[1]] [2] [(0, 1)] 10 logging_callback
      singular_criterion () None ?s1 = Inr ?s2"
    by simp
  have run: "doe_run 3 logging_collaborators [[1]] [2] [(0, 1)] 2 10 (Some logging_callback)
     singular_criterion None None ([[[0], [0]], [[1], [0]], [[0], [1]]], []) = Some (Inr ?t)"
    by code_simp
  have pre: "initialize_ratios [2] None = Inr [1] \<and>
    preinit singular_criterion [2] ([[1]], encode_model logging_collaborators [[1]] [(0, 1)])
      [(0, 1)] [1] = Inr ()"
    by (simp add: initialize_ratios_def singular_criterion_def squares_criterion_def)
  from doe_restarts [where imp = logging_collaborators and plot_sizes = "[2]"
      and factors = "[(0, 1)]" and default_coords = None and model = "[[1]]"
      and optim = singular_criterion and prestate = "()" and max_it = 10
      and cb = "Some logging_callback" and fuel = 3 and n_tries = 2 and t = ?t
      and ratios = None and ratios' = "[1]"
      and g = "([[[0], [0]], [[1], [0]], [[0], [1]]], [])",
      THEN conjunct2, THEN conjunct2, THEN conjunct1, THEN mp, OF pre, THEN iffD1, OF run]
  have c2: "\<exists>k\<le>3.
      ((\<lambda>a b. tries_done a < 2 \<and>
              doe_attempt logging_collaborators [[1]] [2] [(0, 1)] 10 logging_callback
                singular_criterion () None a = Inr b) ^^ k) ?s0 ?t"
    by (simp add: logging_collaborators_def np_zeros2_def numeral_2_eq_2)
  have short: "doe_run 2 logging_collaborators [[1]] [2] [(0, 1)] 2 10 (Some logging_callback)
     singular_criterion None None ([[[0], [0]], [[1], [0]], [[0], [1]]], []) = None"
    by code_simp
  show ?thesis
    by (rule conjI [OF o0 conjI [OF l conjI [OF c0 conjI [OF o1 conjI [OF cb conjI [OF c1
          conjI [OF c2 conjI [OF run short]]]]]]]])
qed

text \<open>
  Claim C8. When \<open>doe\<close> returns, the metrics vector has \<open>n_tries\<close> entries, the
  metrics of the completed restarts. If one of them is greater than minus
  infinity, the design returned is (the decoding of) the design of a restart whose
  metric is greater than minus infinity and is exceeded by no entry of the vector,
  the first such restart: the maximum of the vector, not-a-number left aside. If
  none is (all are minus infinity or not-a-number), the variable \<^verbatim>\<open>best_Y\<close> was
  never assigned and what \<open>doe\<close> returns is no design of a restart but the array
  \<^verbatim>\<open>Y\<close> it started with, as the initializer left it.
\<close>

theorem doe_best_design:
  assumes "doe_run fuel imp model plot_sizes factors n_tries max_it it_callback optim
             default_coords ratios g = Some (Inr s)"
  shows "length (metrics s) = n_tries \<and> map snd (history s) = metrics s \<and>
     ((\<exists>j<n_tries. float_gt (metrics s ! j) NegInf) \<longrightarrow>
        (\<exists>k<n_tries. best_Y s = Some (fst (history s ! k)) \<and> best_metric s = metrics s ! k \<and>
           float_gt (metrics s ! k) NegInf \<and>
           (\<forall>j<n_tries. \<not> float_gt (metrics s ! j) (metrics s ! k)) \<and>
           (\<forall>j<k. metrics s ! j = NaN \<or> float_gt (metrics s ! k) (metrics s ! j)) \<and>
           doe fuel imp model plot_sizes factors n_tries max_it it_callback optim
             default_coords ratios g =
             Some (Inr (decode_design imp (fst (history s ! k)) factors, metrics s)))) \<and>
     (\<not> (\<exists>j<n_tries. float_gt (metrics s ! j) NegInf) \<longrightarrow>
        best_Y s = None \<and>
        doe fuel imp model plot_sizes factors n_tries max_it it_callback optim
          default_coords ratios g =
          Some (Inr (decode_design imp (template_Y s) factors, metrics s)))"
proof -
  let ?some = "\<exists>j<n_tries. float_gt (metrics s ! j) NegInf"
  let ?result = "doe fuel imp model plot_sizes factors n_tries max_it it_callback optim
             default_coords ratios g"
  from doe_run_invariants [OF assms]
  have b: "book_inv n_tries s" and bi: "best_inv s" and t: "tries_done s = n_tries"
    by blast+
  from b have "length (metrics s) = n_tries" "length (history s) = tries_done s"
    "take (tries_done s) (metrics s) = map snd (history s)"
    unfolding book_inv_def by blast+
  then have len: "length (metrics s) = n_tries" "length (history s) = n_tries"
    and ms: "map snd (history s) = metrics s"
    unfolding t by simp_all
  have nth: "snd (history s ! j) = metrics s ! j" if "j < n_tries" for j
    using that len ms by (metis nth_map)
  have chosen: "?some \<longrightarrow>
        (\<exists>k<n_tries. best_Y s = Some (fst (history s ! k)) \<and> best_metric s = metrics s ! k \<and>
           float_gt (metrics s ! k) NegInf \<and>
           (\<forall>j<n_tries. \<not> float_gt (metrics s ! j) (metrics s ! k)) \<and>
           (\<forall>j<k. metrics s ! j = NaN \<or> float_gt (metrics s ! k) (metrics s ! j)) \<and>
           ?result = Some (Inr (decode_design imp (fst (history s ! k)) factors, metrics s)))"
  proof
    assume some: ?some
    have "best_Y s \<noteq> None"
    proof
      assume None: "best_Y s = None"
      with bi have "list_all (\<lambda>h. \<not> float_gt (snd h) NegInf) (history s)"
        by (simp add: best_inv_def)
      then have "\<forall>j<n_tries. \<not> float_gt (metrics s ! j) NegInf"
        using len(2) nth by (simp add: list_all_length)
      with some show False by blast
    qed
    then obtain B where Some: "best_Y s = Some B" by blast
    with bi obtain k where k: "k < n_tries" "history s ! k = (B, best_metric s)"
      "float_gt (best_metric s) NegInf"
      "\<forall>j<n_tries. \<not> float_gt (snd (history s ! j)) (best_metric s)"
      "\<forall>j<k. snd (history s ! j) = NaN \<or> float_gt (best_metric s) (snd (history s ! j))"
      unfolding best_inv_def len(2) by auto
    have bm: "best_metric s = metrics s ! k" using k(1,2) nth [of k] by simp
    have 1: "best_Y s = Some (fst (history s ! k))" using Some k(2) by simp
    have 0: "float_gt (metrics s ! k) NegInf" using k(3) bm by simp
    have 2: "\<forall>j<n_tries. \<not> float_gt (metrics s ! j) (metrics s ! k)"
      using k(4) nth bm by simp
    have 3: "\<forall>j<k. metrics s ! j = NaN \<or> float_gt (metrics s ! k) (metrics s ! j)"
      using k(1,5) nth bm by simp
    have 4: "?result = Some (Inr (decode_design imp (fst (history s ! k)) factors, metrics s))"
      using assms Some k(2) by (simp add: doe_def)
    show "\<exists>k<n_tries. best_Y s = Some (fst (history s ! k)) \<and> best_metric s = metrics s ! k \<and>
           float_gt (metrics s ! k) NegInf \<and>
           (\<forall>j<n_tries. \<not> float_gt (metrics s ! j) (metrics s ! k)) \<and>
           (\<forall>j<k. metrics s ! j = NaN \<or> float_gt (metrics s ! k) (metrics s ! j)) \<and>
           ?result = Some (Inr (decode_design imp (fst (history s ! k)) factors, metrics s))"
      using k(1) bm 0 1 2 3 4 by (intro exI [of _ k] conjI)
  qed
  have untouched: "\<not> ?some \<longrightarrow>
        best_Y s = None \<and>
        ?result = Some (Inr (decode_design imp (template_Y s) factors, metrics s))"
  proof
    assume none: "\<not> ?some"
    have 1: "best_Y s = None"
    proof (rule ccontr)
      assume "best_Y s \<noteq> None"
      then obtain B where "best_Y s = Some B" by blast
      with bi obtain k where "k < n_tries" "history s ! k = (B, best_metric s)"
        "float_gt (best_metric s) NegInf"
        unfolding best_inv_def len(2) by auto
      with nth [of k] have "k < n_tries \<and> float_gt (metrics s ! k) NegInf" by simp
      with none show False by blast
    qed
    with assms have "?result = Some (Inr (decode_design imp (template_Y s) factors, metrics s))"
      by (simp add: doe_def)
    with 1 show "best_Y s = None \<and>
        ?result = Some (Inr (decode_design imp (template_Y s) factors, metrics s))"
      by (rule conjI)
  qed
  show ?thesis
    by (rule conjI [OF len(1) conjI [OF ms conjI [OF chosen untouched]]])
qed

theorem doe_best_design_witness:
  "doe_run 2 list_collaborators [[1]] [1] [(0, 1)] 2 10 None nan_criterion None None
      [[[0]], [[1]]] =
     Some (Inr \<lparr>tries_done = 2, metrics = [NaN, Finite 1], best_metric = Finite 1,
                best_Y = Some [[1]], template_Y = [[1]], rng = [],
                history = [([[0]], NaN), ([[1]], Finite 1)]\<rparr>) \<and>
   float_gt (Finite 1) NegInf \<and> \<not> float_gt NaN NegInf \<and>
   doe 2 list_collaborators [[1]] [1] [(0, 1)] 2 10 None nan_criterion None None
      [[[0]], [[1]]] = Some (Inr ([[1]], [NaN, Finite 1])) \<and>
   doe_run 1 list_collaborators [[1]] [1] [(0, 1)] 1 10 None neginf_criterion None None [[[0]]] =
     Some (Inr \<lparr>tries_done = 1, metrics = [NegInf], best_metric = NegInf, best_Y = None,
                template_Y = [[0]], rng = [], history = [([[-1]], NegInf)]\<rparr>) \<and>
   \<not> float_gt NegInf NegInf \<and>
   doe 1 list_collaborators [[1]] [1] [(0, 1)] 1 10 None neginf_criterion None None [[[0]]] =
     Some (Inr ([[0]], [NegInf])) \<and>
   [[0]] \<noteq> [[-1::real]]"
proof -
  let ?s = "\<lparr>tries_done = 2, metrics = [NaN, Finite 1], best_metric = Finite 1,
                best_Y = Some [[1]], template_Y = [[1]], rng = [],
                history = [([[0]], NaN), ([[1]], Finite 1)]\<rparr> :: matrix list doe_state"
  let ?u = "\<lparr>tries_done = 1, metrics = [NegInf], best_metric = NegInf, best_Y = None,
                template_Y = [[0]], rng = [], history = [([[-1]], NegInf)]\<rparr>
            :: matrix list doe_state"
  have run: "doe_run 2 list_collaborators [[1]] [1] [(0, 1)] 2 10 None nan_criterion None None
      [[[0]], [[1]]] = Some (Inr ?s)"
    by code_simp
  have some: "\<exists>j<2. float_gt (metrics ?s ! j) NegInf"
    by (intro exI [of _ 1]) simp
  from doe_best_design [OF run, THEN conjunct2, THEN conjunct2, THEN conjunct1, THEN mp, OF some]
  obtain k where k: "k < 2" "float_gt (metrics ?s ! k) NegInf"
    "doe 2 list_collaborators [[1]] [1] [(0, 1)] 2 10 None nan_criterion None None
      [[[0]], [[1]]] =
     Some (Inr (decode_design list_collaborators (fst (history ?s ! k)) [(0, 1)], metrics ?s))"
    by blast
  have "k = 1"
  proof (rule ccontr)
    assume "k \<noteq> 1"
    with k(1) have "k = 0" by simp
    with k(2) show False by simp
  qed
  with k(3) have d: "doe 2 list_collaborators [[1]] [1] [(0, 1)] 2 10 None nan_criterion None None
      [[[0]], [[1]]] = Some (Inr ([[1]], [NaN, Finite 1]))"
    by (simp add: list_collaborators_def)
  have run': "doe_run 1 list_collaborators [[1]] [1] [(0, 1)] 1 10 None neginf_criterion None None
      [[[0]]] = Some (Inr ?u)"
    by code_simp
  have none: "\<not> (\<exists>j<1. float_gt (metrics ?u ! j) NegInf)" by simp
  from doe_best_design [OF run', THEN conjunct2, THEN conjunct2, THEN conjunct2, THEN mp,
      OF none, THEN conjunct2]
  have d': "doe 1 list_collaborators [[1]] [1] [(0, 1)] 1 10 None neginf_criterion None None
      [[[0]]] = Some (Inr ([[0]], [NegInf]))"
    by (simp add: list_collaborators_def)
  have f: "float_gt (Finite 1) NegInf" "\<not> float_gt NaN NegInf" "\<not> float_gt NegInf NegInf"
    "[[0]] \<noteq> [[-1::real]]"
    by simp_all
  show ?thesis
    by (rule conjI [OF run conjI [OF f(1) conjI [OF f(2) conjI [OF d conjI [OF run'
          conjI [OF f(3) conjI [OF d' f(4)]]]]]]])
qed

subsection \<open>The search space of optimize is closed\<close>
































subsection \<open>A sweep without an improving candidate\<close>

text \<open>Writing a coordinate into a block.\<close>

lemma set_block_fits:
  assumes "Y \<noteq> []" and "\<forall>row\<in>set Y. c + length v \<le> length row"
  shows "set_block Y runs (c, c + length v) v = Inr (block_written Y runs c v)"
proof -
  from assms have "c + length v \<le> shape1 Y"
    by (cases Y) (auto simp: shape1_def)
  then have "broadcast_to (length (np_slice (fst (c, c + length v)) (snd (c, c + length v))
                 (replicate (shape1 Y) (0::real)))) v = Inr v"
    by (simp add: broadcast_to_def np_slice_def)
  then show ?thesis
    unfolding set_block_def block_written_def by (auto cong: if_cong)
qed

lemma length_block_written [simp]: "length (block_written Y runs c v) = length Y"
  by (simp add: block_written_def)

lemma nth_block_written:
  "k < length Y \<Longrightarrow>
   block_written Y runs c v ! k =
     (if fst runs \<le> k \<and> k < snd runs
      then take c (Y ! k) @ v @ drop (c + length v) (Y ! k) else Y ! k)"
  by (simp add: block_written_def)

lemma lengths_block_written:
  assumes "\<forall>row\<in>set Y. c + length v \<le> length row"
  shows "map length (block_written Y runs c v) = map length Y"
proof (rule nth_equalityI)
  show "length (map length (block_written Y runs c v)) = length (map length Y)" by simp
next
  fix k assume "k < length (map length (block_written Y runs c v))"
  then have k: "k < length Y" by simp
  then have "c + length v \<le> length (Y ! k)" using assms by simp
  then show "map length (block_written Y runs c v) ! k = map length Y ! k"
    using k by (simp add: nth_block_written)
qed

lemma block_written_twice:
  assumes "\<forall>row\<in>set Y. c + length v \<le> length row" and "length v' = length v"
  shows "block_written (block_written Y runs c v) runs c v' = block_written Y runs c v'"
proof (rule nth_equalityI)
  show "length (block_written (block_written Y runs c v) runs c v') =
        length (block_written Y runs c v')" by simp
next
  fix k assume "k < length (block_written (block_written Y runs c v) runs c v')"
  then have k: "k < length Y" by simp
  then have "c + length v \<le> length (Y ! k)" using assms(1) by simp
  then show "block_written (block_written Y runs c v) runs c v' ! k =
             block_written Y runs c v' ! k"
    using k assms(2) by (simp add: nth_block_written)
qed

lemma block_constantD:
  assumes "block_constant Y runs cols" and "fst runs \<le> k" and "k < snd runs" and "k < length Y"
  shows "np_slice (fst cols) (snd cols) (Y ! k) = np_slice (fst cols) (snd cols) (Y ! fst runs)"
proof -
  from assms(1) have "\<forall>j\<in>set [fst runs..<min (snd runs) (length Y)].
      np_slice (fst cols) (snd cols) (Y ! j) = np_slice (fst cols) (snd cols) (Y ! fst runs)"
    unfolding block_constant_def list_all_iff by (rule conjunct2)
  moreover have "k \<in> set [fst runs..<min (snd runs) (length Y)]"
    using assms(2-4) by simp
  ultimately show ?thesis by (rule bspec)
qed

lemma block_written_same:
  assumes bc: "block_constant Y runs (c, c + w)"
    and fit: "\<forall>row\<in>set Y. c + w \<le> length row"
  shows "block_written Y runs c (np_slice c (c + w) (Y ! fst runs)) = Y"
proof (rule nth_equalityI)
  show "length (block_written Y runs c (np_slice c (c + w) (Y ! fst runs))) = length Y" by simp
next
  fix k assume "k < length (block_written Y runs c (np_slice c (c + w) (Y ! fst runs)))"
  then have k: "k < length Y" by simp
  show "block_written Y runs c (np_slice c (c + w) (Y ! fst runs)) ! k = Y ! k"
  proof (cases "fst runs \<le> k \<and> k < snd runs")
    case False
    then show ?thesis using k by (auto simp: nth_block_written)
  next
    case True
    from block_constantD [OF bc _ _ k] True
    have same: "np_slice c (c + w) (Y ! k) = np_slice c (c + w) (Y ! fst runs)"
      by simp
    have len: "c + w \<le> length (Y ! k)" using fit k by simp
    then have lw: "length (np_slice c (c + w) (Y ! k)) = w" by (simp add: np_slice_def)
    have "take (c + w) (Y ! k) = take c (Y ! k) @ take w (drop c (Y ! k))"
      by (rule take_add)
    then have "take c (Y ! k) @ take w (drop c (Y ! k)) @ drop (c + w) (Y ! k) =
               take (c + w) (Y ! k) @ drop (c + w) (Y ! k)"
      by simp
    also have "\<dots> = Y ! k" by (rule append_take_drop_id)
    finally have "take c (Y ! k) @ np_slice c (c + w) (Y ! k) @ drop (c + w) (Y ! k) = Y ! k"
      by (simp add: np_slice_def)
    then show ?thesis
      using k True same lw by (simp add: nth_block_written)
  qed
qed

text \<open>A loop whose body returns and keeps \<open>P\<close> returns, with \<open>P\<close>.\<close>

lemma for_each_total:
  assumes "P s"
    and "\<And>x t. x \<in> set xs \<Longrightarrow> P t \<Longrightarrow> \<exists>t'. body x t = Inr t' \<and> P t'"
  shows "\<exists>s'. for_each body xs s = Inr s' \<and> P s'"
  using assms
proof (induction xs arbitrary: s)
  case Nil
  then show ?case by simp
next
  case (Cons a xs)
  from Cons.prems(2) [of a s] Cons.prems(1) obtain t where t: "body a s = Inr t" "P t"
    by auto
  have "\<exists>s'. for_each body xs t = Inr s' \<and> P s'"
  proof (rule Cons.IH [OF t(2)])
    fix x u assume "x \<in> set xs" "P u"
    then show "\<exists>t'. body x u = Inr t' \<and> P t'" using Cons.prems(2) [of x u] by simp
  qed
  then show ?case using t(1) by simp
qed

lemma rows_fit_lengths:
  assumes "map length Z = map length Y" and "\<forall>row\<in>set Y. n \<le> length row"
  shows "\<forall>row\<in>set Z. n \<le> length row"
proof
  fix row assume "row \<in> set Z"
  then have "length row \<in> set (map length Z)" by simp
  then have "length row \<in> set (map length Y)" using assms(1) by simp
  then obtain r where "r \<in> set Y" "length r = length row" by auto
  with assms(2) show "n \<le> length row" by auto
qed

lemma set_np_slice: "set (np_slice a b xs) \<subseteq> set xs"
  unfolding np_slice_def by (meson set_take_subset set_drop_subset subset_trans)


lemma try_coordinate_rejected:
  fixes t :: "'z sweep_state" and optim :: "('m, 'p, 'z) optim"
  assumes ne: "Y \<noteq> []" and fit: "\<forall>row\<in>set Y. c + w \<le> length row"
    and ln: "length new_coord = w" and li: "length init_coord = w"
    and cy: "cur_Y t = block_written Y runs c u" and lu: "length u = w"
    and r: "reached (cur_state t)"
    and rej: "new_coord = init_coord \<or>
         (case x2fx (np_slice (fst runs) (snd runs) (block_written Y runs c new_coord)) model of
            Inl e \<Rightarrow> False
          | Inr Xi \<Rightarrow>
              (case update optim (cur_state t) (cur_X t) Xi level grp of
                 Inl e \<Rightarrow> isinstance_Exception e
               | Inr (accept, st') \<Rightarrow> \<not> accept \<and> reached st'))"
  shows "\<exists>st'. reached st' \<and>
           try_coordinate optim model level grp runs (c, c + w) init_coord new_coord (best, t) =
             Inr (best, t\<lparr>cur_Y := block_written Y runs c new_coord, cur_state := st'\<rparr>)"
proof -
  let ?Y' = "block_written Y runs c new_coord"
  have lens: "map length (cur_Y t) = map length Y"
    unfolding cy using fit lu by (intro lengths_block_written) simp
  have fit': "\<forall>row\<in>set (cur_Y t). c + length new_coord \<le> length row"
    using rows_fit_lengths [OF lens] fit ln by simp
  have ne': "cur_Y t \<noteq> []" using ne cy by (metis length_block_written length_0_conv)
  have "block_written (cur_Y t) runs c new_coord = ?Y'"
    unfolding cy using fit lu ln by (intro block_written_twice) simp_all
  with set_block_fits [OF ne' fit', of runs]
  have sb: "set_block (cur_Y t) runs (c, c + w) new_coord = Inr ?Y'"
    using ln by simp
  have eq: "np_all_eq new_coord init_coord = Inr (new_coord = init_coord)"
    using ln li by (simp add: np_all_eq_def)
  show ?thesis
  proof (cases "new_coord = init_coord")
    case True
    have "t\<lparr>cur_Y := ?Y'\<rparr> = t\<lparr>cur_Y := ?Y', cur_state := cur_state t\<rparr>" by simp
    then show ?thesis
      using sb eq True r by (auto simp: try_coordinate_def intro!: exI [of _ "cur_state t"])
  next
    case False
    with rej obtain Xi where x: "x2fx (np_slice (fst runs) (snd runs) ?Y') model = Inr Xi"
      and u: "case update optim (cur_state t) (cur_X t) Xi level grp of
                 Inl e \<Rightarrow> isinstance_Exception e
               | Inr (accept, st') \<Rightarrow> \<not> accept \<and> reached st'"
      by (auto split: sum.splits)
    have "\<exists>st'. reached st' \<and>
            try_update optim (cur_state t) (cur_X t) Xi level grp = Inr (False, st')"
    proof (cases "update optim (cur_state t) (cur_X t) Xi level grp")
      case (Inl e)
      with u r show ?thesis by (auto simp: try_update_def)
    next
      case (Inr res)
      obtain accept st' where "res = (accept, st')" by (cases res)
      with Inr u show ?thesis by (auto simp: try_update_def)
    qed
    then obtain st' where "reached st'"
      "try_update optim (cur_state t) (cur_X t) Xi level grp = Inr (False, st')"
      by blast
    then show ?thesis
      using sb eq False x by (auto simp: try_coordinate_def)
  qed
qed

lemma np_index_int: "k < length xs \<Longrightarrow> np_index xs (int k) = Inr (xs ! k)"
  by (simp add: np_index_def)

lemma scan_block_rejected:
  fixes s :: "'z sweep_state" and optim :: "('m, 'p, 'z) optim"
  assumes i: "i < length coords" and rc: "rectangular (coords ! i)"
    and fit: "\<forall>row\<in>set Y. c + shape1 (coords ! i) \<le> length row"
    and bc: "block_constant Y (grp * jmp, (grp + 1) * jmp) (c, c + shape1 (coords ! i))"
    and cy: "cur_Y s = Y" and cx: "cur_X s = X" and r: "reached (cur_state s)"
    and rej: "\<forall>st. reached st \<longrightarrow> (\<forall>new_coord\<in>set (coords ! i).
         new_coord = np_slice c (c + shape1 (coords ! i)) (Y ! (grp * jmp)) \<or>
         (case x2fx (np_slice (grp * jmp) ((grp + 1) * jmp)
                       (block_written Y (grp * jmp, (grp + 1) * jmp) c new_coord)) model of
            Inl e \<Rightarrow> False
          | Inr Xi \<Rightarrow>
              (case update optim st X Xi level grp of
                 Inl e \<Rightarrow> isinstance_Exception e
               | Inr (accept, st') \<Rightarrow> \<not> accept \<and> reached st')))"
  shows "\<exists>s'. scan_block optim model coords i level jmp c grp s = Inr s' \<and>
              cur_Y s' = Y \<and> cur_X s' = X \<and> updated s' = updated s \<and>
              reached (cur_state s')"
proof -
  let ?w = "shape1 (coords ! i)"
  let ?runs = "(grp * jmp, (grp + 1) * jmp)"
  let ?init = "np_slice c (c + ?w) (Y ! (grp * jmp))"
  from bc have r0: "grp * jmp < length Y" by (simp add: block_constant_def)
  then have ne: "Y \<noteq> []" by auto
  have "c + ?w \<le> length (Y ! (grp * jmp))" using fit r0 by simp
  then have li: "length ?init = ?w" by (simp add: np_slice_def)
  have same: "block_written Y ?runs c ?init = Y"
    using block_written_same [OF bc fit] by simp
  have pc: "np_index coords (int i) = Inr (coords ! i)"
    using i by (simp add: np_index_def)
  have row: "np_index (cur_Y s) (int (fst ?runs)) = Inr (Y ! (grp * jmp))"
    using np_index_int [OF r0] cy by simp
  let ?P = "\<lambda>bs :: vector \<times> 'z sweep_state. fst bs = ?init \<and>
               (\<exists>u. length u = ?w \<and> cur_Y (snd bs) = block_written Y ?runs c u) \<and>
               cur_X (snd bs) = X \<and> updated (snd bs) = updated s \<and>
               reached (cur_state (snd bs))"
  have "\<exists>bs'. for_each (try_coordinate optim model level grp ?runs (c, c + ?w) ?init)
                 (coords ! i) (?init, s) = Inr bs' \<and> ?P bs'"
  proof (rule for_each_total [where P = ?P])
    show "?P (?init, s)" using cy cx r same li by (auto intro!: exI [of _ ?init])
  next
    fix x bs assume x: "x \<in> set (coords ! i)" and P: "?P bs"
    obtain b t where bs: "bs = (b, t)" by (cases bs)
    from P bs obtain u where u: "b = ?init" "length u = ?w"
      "cur_Y t = block_written Y ?runs c u" "cur_X t = X" "updated t = updated s"
      "reached (cur_state t)"
      by auto
    from x rc have lx: "length x = ?w" by (auto simp: rectangular_def list_all_iff)
    from rej u(6) x have "x = ?init \<or>
         (case x2fx (np_slice (fst ?runs) (snd ?runs) (block_written Y ?runs c x)) model of
            Inl e \<Rightarrow> False
          | Inr Xi \<Rightarrow>
              (case update optim (cur_state t) (cur_X t) Xi level grp of
                 Inl e \<Rightarrow> isinstance_Exception e
               | Inr (accept, st') \<Rightarrow> \<not> accept \<and> reached st'))"
      unfolding u(4) by auto
    from try_coordinate_rejected [where reached = reached and optim = optim,
        OF ne fit lx li u(3) u(2) u(6) this]
    obtain st' where "reached st'"
      "try_coordinate optim model level grp ?runs (c, c + ?w) ?init x (b, t) =
               Inr (b, t\<lparr>cur_Y := block_written Y ?runs c x, cur_state := st'\<rparr>)"
      by blast
    then show "\<exists>bs'. try_coordinate optim model level grp ?runs (c, c + ?w) ?init x bs = Inr bs' \<and>
                 ?P bs'"
      using bs u lx by (auto intro!: exI [of _ x])
  qed
  then obtain b t u where loop: "for_each (try_coordinate optim model level grp ?runs (c, c + ?w) ?init)
                 (coords ! i) (?init, s) = Inr (b, t)"
    and b: "b = ?init" and u: "length u = ?w" "cur_Y t = block_written Y ?runs c u"
    and keep: "cur_X t = X" "updated t = updated s" "reached (cur_state t)"
    by auto
  have lens: "map length (cur_Y t) = map length Y"
    unfolding u(2) using fit u(1) by (intro lengths_block_written) simp
  have fit': "\<forall>row\<in>set (cur_Y t). c + length ?init \<le> length row"
    using rows_fit_lengths [OF lens] fit li by simp
  have ne': "cur_Y t \<noteq> []" using ne u(2) by (metis length_block_written length_0_conv)
  have "block_written (cur_Y t) ?runs c ?init = Y"
    unfolding u(2) using block_written_twice [of Y c u ?init ?runs] fit u(1) li same by simp
  with set_block_fits [OF ne' fit', of ?runs] li
  have fin: "set_block (cur_Y t) ?runs (c, c + ?w) ?init = Inr Y" by simp
  have "scan_block optim model coords i level jmp c grp s = Inr (t\<lparr>cur_Y := Y\<rparr>)"
    unfolding scan_block_def pc using row loop fin b cy
    by (simp add: Let_def)
  then show ?thesis using keep by simp
qed

lemma scan_factor_rejected:
  fixes s :: "'z sweep_state" and optim :: "('m, 'p, 'z) optim"
  assumes sp: "split_plot_design coords cs alphas betas factors Y"
    and na: "never_accepts optim reached model coords cs alphas betas factors Y X"
    and mem: "ifactor \<in> set (enumerate 0 factors)"
    and cy: "cur_Y s = Y" and cx: "cur_X s = X" and r: "reached (cur_state s)"
  shows "\<exists>s'. scan_factor optim model coords alphas betas cs ifactor s = Inr s' \<and>
              cur_Y s' = Y \<and> cur_X s' = X \<and> updated s' = updated s \<and>
              reached (cur_state s')"
proof -
  obtain i level cat_lvl where f: "ifactor = (i, (level, cat_lvl))" by (cases ifactor) auto
  from sp mem f have body:
    "(case np_index betas level of Inl e \<Rightarrow> False | Inr jmp \<Rightarrow>
       (case np_index alphas level of Inl e \<Rightarrow> False | Inr n_grp \<Rightarrow>
          i < length cs \<and> i < length coords \<and> rectangular (coords ! i) \<and>
          list_all (\<lambda>row. cs ! i + shape1 (coords ! i) \<le> length row) Y \<and>
          list_all (\<lambda>grp. block_constant Y (grp * jmp, (grp + 1) * jmp)
                       (cs ! i, cs ! i + shape1 (coords ! i))) [0..<n_grp]))"
    unfolding split_plot_design_def list_all_iff by fastforce
  then obtain jmp where jmp: "np_index betas level = Inr jmp"
    by (cases "np_index betas level") simp_all
  with body obtain n_grp where n_grp: "np_index alphas level = Inr n_grp"
    by (cases "np_index alphas level") simp_all
  from body jmp n_grp have i: "i < length cs" "i < length coords"
    and rc: "rectangular (coords ! i)"
    and fit: "\<forall>row\<in>set Y. cs ! i + shape1 (coords ! i) \<le> length row"
    and bc: "\<forall>grp\<in>set [0..<n_grp]. block_constant Y (grp * jmp, (grp + 1) * jmp)
                       (cs ! i, cs ! i + shape1 (coords ! i))"
    by (simp_all add: list_all_iff)
  have rej: "\<forall>new_coord\<in>set (coords ! i).
         new_coord = np_slice (cs ! i) (cs ! i + shape1 (coords ! i)) (Y ! (grp * jmp)) \<or>
         (case x2fx (np_slice (grp * jmp) ((grp + 1) * jmp)
                       (block_written Y (grp * jmp, (grp + 1) * jmp) (cs ! i) new_coord)) model of
            Inl e \<Rightarrow> False
          | Inr Xi \<Rightarrow>
              (case update optim st X Xi level grp of
                 Inl e \<Rightarrow> isinstance_Exception e
               | Inr (accept, st') \<Rightarrow> \<not> accept \<and> reached st'))"
    if "reached st" "grp \<in> set [0..<n_grp]" for st grp
  proof -
    from na that(1) have "list_all (\<lambda>(i, (level, cat_lvl)).
          (case np_index betas level of
             Inl e \<Rightarrow> True
           | Inr jmp \<Rightarrow>
               (case np_index alphas level of
                  Inl e \<Rightarrow> True
                | Inr n_grp \<Rightarrow>
                    list_all (\<lambda>grp.
                      list_all (\<lambda>new_coord.
                        new_coord = np_slice (cs ! i) (cs ! i + shape1 (coords ! i))
                                      (Y ! (grp * jmp)) \<or>
                        (case x2fx (np_slice (grp * jmp) ((grp + 1) * jmp)
                                      (block_written Y (grp * jmp, (grp + 1) * jmp)
                                         (cs ! i) new_coord)) model of
                           Inl e \<Rightarrow> False
                         | Inr Xi \<Rightarrow>
                             (case update optim st X Xi level grp of
                                Inl e \<Rightarrow> isinstance_Exception e
                              | Inr (accept, st') \<Rightarrow> \<not> accept \<and> reached st')))
                        (coords ! i)) [0..<n_grp])))
          (enumerate 0 factors)"
      unfolding never_accepts_def by blast
    with mem f have "list_all (\<lambda>grp.
                      list_all (\<lambda>new_coord.
                        new_coord = np_slice (cs ! i) (cs ! i + shape1 (coords ! i))
                                      (Y ! (grp * jmp)) \<or>
                        (case x2fx (np_slice (grp * jmp) ((grp + 1) * jmp)
                                      (block_written Y (grp * jmp, (grp + 1) * jmp)
                                         (cs ! i) new_coord)) model of
                           Inl e \<Rightarrow> False
                         | Inr Xi \<Rightarrow>
                             (case update optim st X Xi level grp of
                                Inl e \<Rightarrow> isinstance_Exception e
                              | Inr (accept, st') \<Rightarrow> \<not> accept \<and> reached st')))
                        (coords ! i)) [0..<n_grp]"
      unfolding list_all_iff using jmp n_grp by fastforce
    with that(2) show ?thesis unfolding list_all_iff by blast
  qed
  have col: "np_index cs (int i) = Inr (cs ! i)" using i(1) by (rule np_index_int)
  let ?P = "\<lambda>t :: 'z sweep_state. cur_Y t = Y \<and> cur_X t = X \<and> updated t = updated s \<and>
              reached (cur_state t)"
  have "\<exists>s'. for_each (scan_block optim model coords i level jmp (cs ! i)) [0..<n_grp] s = Inr s'
              \<and> ?P s'"
  proof (rule for_each_total [where P = ?P])
    show "?P s" using cy cx r by simp
  next
    fix grp t assume grp: "grp \<in> set [0..<n_grp]" and P: "?P t"
    from bc grp have b: "block_constant Y (grp * jmp, (grp + 1) * jmp)
                       (cs ! i, cs ! i + shape1 (coords ! i))" by blast
    from P have ty: "cur_Y t = Y" and tx: "cur_X t = X" and tr: "reached (cur_state t)"
      by simp_all
    have rj: "\<forall>st. reached st \<longrightarrow> (\<forall>new_coord\<in>set (coords ! i).
         new_coord = np_slice (cs ! i) (cs ! i + shape1 (coords ! i)) (Y ! (grp * jmp)) \<or>
         (case x2fx (np_slice (grp * jmp) ((grp + 1) * jmp)
                       (block_written Y (grp * jmp, (grp + 1) * jmp) (cs ! i) new_coord)) model of
            Inl e \<Rightarrow> False
          | Inr Xi \<Rightarrow>
              (case update optim st X Xi level grp of
                 Inl e \<Rightarrow> isinstance_Exception e
               | Inr (accept, st') \<Rightarrow> \<not> accept \<and> reached st')))"
      using rej [OF _ grp] by blast
    from scan_block_rejected [where reached = reached and optim = optim,
        OF i(2) rc fit b ty tx tr rj]
    show "\<exists>t'. scan_block optim model coords i level jmp (cs ! i) grp t = Inr t' \<and> ?P t'"
      using P by auto
  qed
  then show ?thesis
    unfolding scan_factor_def f using jmp col n_grp by simp
qed

lemma sweep_rejected:
  fixes s :: "'z sweep_state" and optim :: "('m, 'p, 'z) optim"
  assumes sp: "split_plot_design coords cs alphas betas factors Y"
    and na: "never_accepts optim reached model coords cs alphas betas factors Y X"
    and cy: "cur_Y s = Y" and cx: "cur_X s = X" and r: "reached (cur_state s)"
  shows "\<exists>s'. sweep optim model factors coords alphas betas cs s = Inr s' \<and>
              cur_Y s' = Y \<and> cur_X s' = X \<and> \<not> updated s' \<and> reached (cur_state s')"
proof -
  let ?P = "\<lambda>t :: 'z sweep_state. cur_Y t = Y \<and> cur_X t = X \<and> \<not> updated t \<and>
              reached (cur_state t)"
  have "\<exists>s'. for_each (scan_factor optim model coords alphas betas cs) (enumerate 0 factors)
               (s\<lparr>updated := False\<rparr>) = Inr s' \<and> ?P s'"
  proof (rule for_each_total [where P = ?P])
    show "?P (s\<lparr>updated := False\<rparr>)" using cy cx r by simp
  next
    fix x t assume x: "x \<in> set (enumerate 0 factors)" and P: "?P t"
    from P have ty: "cur_Y t = Y" and tx: "cur_X t = X" and tr: "reached (cur_state t)"
      by simp_all
    from scan_factor_rejected [OF sp na x ty tx tr]
    show "\<exists>t'. scan_factor optim model coords alphas betas cs x t = Inr t' \<and> ?P t'"
      using P by auto
  qed
  then show ?thesis unfolding sweep_def .
qed

lemma optimize_run_rejected:
  fixes optim :: "('m, 'p, 'z) optim"
  assumes cap: "0 < max_it"
    and x: "x2fx Y model = Inr X"
    and ini: "init optim prestate Y X = Inr st0"
    and r: "reached st0"
    and sp: "split_plot_design (all_possible_coords factors default_coords)
               (case col_start of None \<Rightarrow> default_col_start factors | Some c \<Rightarrow> c)
               (rev (np_cumprod (rev plot_sizes))) (np_cumprod (1 # plot_sizes)) factors Y"
    and na: "never_accepts optim reached model (all_possible_coords factors default_coords)
               (case col_start of None \<Rightarrow> default_col_start factors | Some c \<Rightarrow> c)
               (rev (np_cumprod (rev plot_sizes))) (np_cumprod (1 # plot_sizes)) factors Y X"
  shows "\<exists>s. optimize_run solver Y model plot_sizes factors optim prestate max_it col_start
               default_coords = Inr (1, s) \<and>
             cur_Y s = Y \<and> cur_X s = X \<and> \<not> updated s"
proof -
  let ?s0 = "\<lparr>cur_Y = Y, cur_X = X, cur_state = st0, updated = False\<rparr>"
  from cap obtain k where k: "max_it = Suc k" by (cases max_it) simp_all
  have "cur_Y ?s0 = Y" "cur_X ?s0 = X" "reached (cur_state ?s0)" using r by simp_all
  from sweep_rejected [OF sp na this]
  obtain s' where s': "sweep optim model factors (all_possible_coords factors default_coords)
        (rev (np_cumprod (rev plot_sizes))) (np_cumprod (1 # plot_sizes))
        (case col_start of None \<Rightarrow> default_col_start factors | Some c \<Rightarrow> c) ?s0 = Inr s'"
    "cur_Y s' = Y" "cur_X s' = X" "\<not> updated s'"
    by auto
  then show ?thesis
    unfolding optimize_run_def k using x ini by (simp add: Let_def)
qed

text \<open>
  Claim C7, as stated for every input, fails: \<open>optimize\<close> takes the coordinate of
  a block from its first run and writes it to all the runs of the block. On a
  design whose block of two runs holds \<open>0\<close> and \<open>1\<close>, with a criterion that accepts
  nothing, the one sweep reports no update and the design returned is not the
  one given.
\<close>

theorem optimize_unstructured_design_counterexample:
  "update rejecting_criterion = (\<lambda>st X Xi level grp. Inr (False, st)) \<and>
   optimize_run (\<lambda>V X. Inr []) [[0], [1]] [[1]] [2, 1] [(1, 1)] rejecting_criterion () 10
     None None =
     Inr (1, \<lparr>cur_Y = [[0], [0]], cur_X = [[0], [1]], cur_state = \<lparr>V = [], Minv = []\<rparr>,
              updated = False\<rparr>) \<and>
   optimize (\<lambda>V X. Inr []) [[0], [1]] [[1]] [2, 1] [(1, 1)] rejecting_criterion () 10
     None None = Inr ([[0], [0]], Finite 1) \<and>
   [[0], [0]] \<noteq> [[0], [1::real]]"
proof -
  have "optimize_run (\<lambda>V X. Inr []) [[0], [1]] [[1]] [2, 1] [(1, 1)] rejecting_criterion () 10
     None None =
     Inr (1, \<lparr>cur_Y = [[0], [0]], cur_X = [[0], [1]], cur_state = \<lparr>V = [], Minv = []\<rparr>,
              updated = False\<rparr>)"
    by code_simp
  moreover have "optimize (\<lambda>V X. Inr []) [[0], [1]] [[1]] [2, 1] [(1, 1)] rejecting_criterion
     () 10 None None = Inr ([[0], [0]], Finite 1)"
    by code_simp
  ultimately show ?thesis by (simp add: rejecting_criterion_def)
qed

text \<open>
  Claim C7, for designs with one coordinate per block. Let the design be one on
  which \<open>update\<close> accepts no candidate: in every state the criterion can be in,
  from the initial one on, the call of \<open>update\<close> for every block and every
  candidate that differs from the coordinate of the block answers ``not accepted''
  or raises an exception that derives from \<^verbatim>\<open>Exception\<close>. Let the cap on the
  iterations be at least one, \<open>x2fx\<close> and \<open>init\<close> return, and every block of every
  factor hold one coordinate. Then \<open>optimize\<close> makes exactly one sweep, which
  reports no update, and its design is the one it was given: it returns that
  design with the metric, when \<open>metric\<close> returns one.
\<close>

theorem optimize_no_improving_candidate:
  fixes optim :: "('m, 'p, 'z) optim"
  assumes "coords = all_possible_coords factors default_coords"
    and "cs = (case col_start of None \<Rightarrow> default_col_start factors | Some c \<Rightarrow> c)"
    and "alphas = rev (np_cumprod (rev plot_sizes))"
    and "betas = np_cumprod (1 # plot_sizes)"
    and "0 < max_it"
    and "x2fx Y model = Inr X"
    and "init optim prestate Y X = Inr st0"
    and "reached st0"
    and "split_plot_design coords cs alphas betas factors Y"
    and "never_accepts optim reached model coords cs alphas betas factors Y X"
  shows "\<exists>s. optimize_run solver Y model plot_sizes factors optim prestate max_it col_start
               default_coords = Inr (1, s) \<and>
             cur_Y s = Y \<and> cur_X s = X \<and> \<not> updated s \<and>
             optimize solver Y model plot_sizes factors optim prestate max_it col_start
               default_coords =
               bind (metric optim (cur_state s) Y X) (\<lambda>m. Inr (Y, m))"
proof -
  from optimize_run_rejected [where reached = reached and optim = optim,
      OF assms(5) assms(6) assms(7) assms(8) assms(9) [unfolded assms(1-4)]
         assms(10) [unfolded assms(1-4)], of solver]
  obtain s where s: "optimize_run solver Y model plot_sizes factors optim prestate max_it
      col_start default_coords = Inr (1, s)"
    and k: "cur_Y s = Y" "cur_X s = X" "\<not> updated s"
    by blast
  have "optimize solver Y model plot_sizes factors optim prestate max_it col_start
          default_coords =
        bind (metric optim (cur_state s) Y X) (\<lambda>m. Inr (Y, m))"
    unfolding optimize_def s using k by simp
  with s k show ?thesis by blast
qed

theorem optimize_no_improving_candidate_witness:
  "[[[-1], [0], [1]], [[-1], [0], [1]]] = all_possible_coords [(0, 1), (0, 1)] None \<and>
   [0, 1, 2] = (case None of None \<Rightarrow> default_col_start [(0, 1), (0, 1)] | Some c \<Rightarrow> c) \<and>
   [2] = rev (np_cumprod (rev [2])) \<and> [1, 2] = np_cumprod (1 # [2]) \<and> 0 < (10::nat) \<and>
   x2fx [[1, -1], [-1, 1]] [[1, 0], [0, 1]] = Inr [[1, -1], [-1, 1]] \<and>
   init squares_criterion () [[1, -1], [-1, 1]] [[1, -1], [-1, 1]] = Inr \<lparr>V = [], Minv = []\<rparr> \<and>
   split_plot_design [[[-1], [0], [1]], [[-1], [0], [1]]] [0, 1, 2] [2] [1, 2]
     [(0, 1), (0, 1)] [[1, -1], [-1, 1]] \<and>
   never_accepts squares_criterion (\<lambda>st. True) [[1, 0], [0, 1]]
     [[[-1], [0], [1]], [[-1], [0], [1]]] [0, 1, 2] [2] [1, 2] [(0, 1), (0, 1)]
     [[1, -1], [-1, 1]] [[1, -1], [-1, 1]] \<and>
   update squares_criterion \<lparr>V = [], Minv = []\<rparr> [[1, -1], [-1, 1]] [[2, -1]] 0 0 =
     Inr (True, \<lparr>V = [], Minv = []\<rparr>) \<and>
   (\<exists>s. optimize_run (\<lambda>V X. Inr []) [[1, -1], [-1, 1]] [[1, 0], [0, 1]] [2] [(0, 1), (0, 1)]
          squares_criterion () 10 None None = Inr (1, s) \<and>
        cur_Y s = [[1, -1], [-1, 1]] \<and> cur_X s = [[1, -1], [-1, 1]] \<and> \<not> updated s \<and>
        optimize (\<lambda>V X. Inr []) [[1, -1], [-1, 1]] [[1, 0], [0, 1]] [2] [(0, 1), (0, 1)]
          squares_criterion () 10 None None =
          bind (metric squares_criterion (cur_state s) [[1, -1], [-1, 1]] [[1, -1], [-1, 1]])
            (\<lambda>m. Inr ([[1, -1], [-1, 1]], m))) \<and>
   optimize (\<lambda>V X. Inr []) [[1, -1], [-1, 1]] [[1, 0], [0, 1]] [2] [(0, 1), (0, 1)]
     squares_criterion () 10 None None = Inr ([[1, -1], [-1, 1]], Finite 4)"
proof -
  have c: "[[[-1], [0], [1]], [[-1], [0], [1]]] = all_possible_coords [(0, 1), (0, 1)] None"
    by code_simp
  have s: "[0, 1, 2] = (case None of None \<Rightarrow> default_col_start [(0, 1), (0, 1)]
                        | Some c \<Rightarrow> c)"
    by code_simp
  have a: "[2] = rev (np_cumprod (rev [2]))" by code_simp
  have b: "[1, 2] = np_cumprod (1 # [2])" by code_simp
  have m: "0 < (10::nat)" by simp
  have x: "x2fx [[1, -1], [-1, 1]] [[1, 0], [0, 1]] = Inr [[1, -1], [-1, 1]]"
    by code_simp
  have i: "init squares_criterion () [[1, -1], [-1, 1]] [[1, -1], [-1, 1]] =
             Inr \<lparr>V = [], Minv = []\<rparr>"
    by (simp add: squares_criterion_def)
  have p: "split_plot_design [[[-1], [0], [1]], [[-1], [0], [1]]] [0, 1, 2] [2] [1, 2]
     [(0, 1), (0, 1)] [[1, -1], [-1, 1]]"
    by code_simp
  have n: "never_accepts squares_criterion (\<lambda>st. True) [[1, 0], [0, 1]]
     [[[-1], [0], [1]], [[-1], [0], [1]]] [0, 1, 2] [2] [1, 2] [(0, 1), (0, 1)]
     [[1, -1], [-1, 1]] [[1, -1], [-1, 1]]"
    by (simp add: never_accepts_def squares_criterion_def np_index_def np_slice_def
        block_written_def shape1_def x2fx_def x2fx_with_def exact_arith_def column_def
        set_column_def sumsq_def enumerate_eq_zip upt_rec)
  have u: "update squares_criterion \<lparr>V = [], Minv = []\<rparr> [[1, -1], [-1, 1]] [[2, -1]] 0 0 =
     Inr (True, \<lparr>V = [], Minv = []\<rparr>)"
    by (simp add: squares_criterion_def sumsq_def)
  note t = optimize_no_improving_candidate [where reached = "\<lambda>st. True"
      and optim = squares_criterion and solver = "\<lambda>V X. Inr []", OF c s a b m x i TrueI p n]
  have o: "optimize (\<lambda>V X. Inr []) [[1, -1], [-1, 1]] [[1, 0], [0, 1]] [2] [(0, 1), (0, 1)]
     squares_criterion () 10 None None = Inr ([[1, -1], [-1, 1]], Finite 4)"
    using t by (auto simp: squares_criterion_def sumsq_def)
  show ?thesis
    by (rule conjI [OF c conjI [OF s conjI [OF a conjI [OF b conjI [OF m conjI [OF x
          conjI [OF i conjI [OF p conjI [OF n conjI [OF u conjI [OF t o]]]]]]]]]]])
qed

end
